theory Spec2Isabelle
  imports Complex_Main "HOL-Library.AList"
begin

section \<open>Data model of \<open>PublicLobbyBackend.ts\<close>\<close>

text \<open>
  The backend keeps a mirror of a remote game session. Everything it does beyond computing
  a value is made explicit here: the domain events it emits, the lines it logs and the
  calls it makes on the protocol client are three traces carried in the state.
\<close>

subsection \<open>Enumerations\<close>

text \<open>\<open>ConnectionErrorCode\<close>, in the order of the source. \<open>None\<close> is taken by the option type.\<close>

datatype ConnectionErrorCode =
  None_code | NoClient | FailedToConnect | TimedOut | GameNotFound | FailedToJoin

text \<open>The log modes used by the backend (\<open>LogMode\<close> of \<open>./Backend\<close>).\<close>

datatype LogMode = Info | Log | Warn | Error_mode | Fatal | Success

text \<open>\<open>PlayerFlag\<close>, \<open>GameState\<close> and \<open>GameFlag\<close> as the backend uses them.\<close>

datatype PlayerFlag = None_flag | IsImpostor | IsDead | OnCams

datatype GameState = Lobby | Game | Meeting

datatype GameFlag = CommsSabotaged

subsection \<open>Entities of the protocol client\<close>

text \<open>
  Every networked object carries a back-reference \<open>room\<close> to the client object that owns
  it; a client object is identified by a number.
\<close>

record Heritable =
  room :: nat

record PlayerInfo =
  name :: string
  color :: int

record PlayerData = Heritable +
  id' :: int
  data :: "PlayerInfo option"

record Networkable = Heritable +
  ownerid :: int
  classname :: string

text \<open>The mirror \<open>{ map, crewmateVision }\<close>; the map is a \<open>MapID\<close> number.\<close>

record GameSettings =
  map' :: int
  crewmateVision :: real

definition TheSkeld :: int where
  "TheSkeld = 0"

type_synonym endpoint = "string \<times> nat"

text \<open>
  The fields of \<open>SkeldjsClient\<close> that the backend reads. A JavaScript \<open>Map\<close> is an
  association list in insertion order with distinct keys; the array \<open>components\<close> may hold
  holes.
\<close>

record SkeldjsClient =
  cref :: nat
  socket :: bool
  identified :: bool
  me :: "PlayerData option"
  code :: "int option"
  username :: "string option"
  ip :: "string option"
  port :: "nat option"
  clientid :: int
  host :: "PlayerData option"
  players :: "(int \<times> PlayerData) list"
  objects :: "(int \<times> PlayerData) list"
  netobjects :: "(int \<times> Networkable) list"
  components :: "Networkable option list"
  csettings :: "GameSettings option"

subsection \<open>Traces\<close>

text \<open>The domain events handed to the consumer.\<close>

datatype event =
    Error string bool
  | HostChange string
  | PlayerPose string real real
  | PlayerColor string int
  | PlayerFlags string PlayerFlag bool
  | PlayerVent string int
  | GameStateChange GameState
  | GameFlags GameFlag bool
  | SettingsUpdate GameSettings

text \<open>
  A log line is its mode and the pieces handed to \<open>log\<close>; a number or a formatted player
  name that the source concatenates into the text stays a piece of its own, so neither
  \<open>util.format\<close> nor the console colours are modelled.
\<close>

datatype piece = Str string | Intg int | Num real | Name "PlayerData option"

type_synonym log_line = "LogMode \<times> piece list"

text \<open>
  The calls made on the protocol client and on the token helper process. The trace also
  notes every entry into \<open>initialSpawn\<close>, with the argument \<open>isFinal\<close> it was given.
\<close>

datatype call =
    NewClient
  | Connect "string option" "string option" "nat option" "nat option"
  | Identify string nat
  | Disconnect
  | SendJoinGame int
  | WaitPayload
  | SpawnSelf
  | RemoveListeners string
  | GetAuthToken "endpoint option"
  | AwaitSpawnsAndSettings
  | Announce
  | InitialSpawn bool

datatype code_arg = NoCode | StrCode string | IntCode int

subsection \<open>The backend object\<close>

record PublicLobbyBackend =
  destroyed :: bool
  gameCode :: code_arg
  client :: "SkeldjsClient option"
  authToken :: nat
  master :: "endpoint list"
  server :: nat
  players_cache :: "(int \<times> PlayerData) list option"
  components_cache :: "(int \<times> Networkable) list option"
  global_cache :: "Networkable option list option"
  settings :: GameSettings
  emitted :: "event list"
  logged :: "log_line list"
  calls :: "call list"

text \<open>
  The constructor: only \<open>backendModel\<close> and \<open>settings\<close> are assigned; the other
  fields are \<open>undefined\<close> until \<open>initialize\<close> runs (here: no client, no caches, an
  empty server list).
\<close>

definition new_backend :: "code_arg \<Rightarrow> PublicLobbyBackend" where
  "new_backend gc =
     \<lparr> destroyed = False, gameCode = gc, client = None, authToken = 0,
       master = [], server = 0,
       players_cache = None, components_cache = None, global_cache = None,
       settings = \<lparr> map' = TheSkeld, crewmateVision = 1 \<rparr>,
       emitted = [], logged = [], calls = [] \<rparr>"

text \<open>\<open>log(mode, format, ...params)\<close>.\<close>

definition log' :: "LogMode \<Rightarrow> piece list \<Rightarrow> PublicLobbyBackend \<Rightarrow> PublicLobbyBackend" where
  "log' mode ps b = b\<lparr>logged := logged b @ [(mode, ps)]\<rparr>"

text \<open>
  Modelled from the spec: the \<open>emit*\<close> methods of \<open>BackendAdapter\<close> (\<open>./Backend\<close>
  is not among the sources); each hands one domain event to the consumer.
\<close>

definition emit :: "event \<Rightarrow> PublicLobbyBackend \<Rightarrow> PublicLobbyBackend" where
  "emit ev b = b\<lparr>emitted := emitted b @ [ev]\<rparr>"

definition emitError :: "string \<Rightarrow> bool \<Rightarrow> PublicLobbyBackend \<Rightarrow> PublicLobbyBackend" where
  "emitError msg fatal = emit (Error msg fatal)"

definition emitHostChange :: "string \<Rightarrow> PublicLobbyBackend \<Rightarrow> PublicLobbyBackend" where
  "emitHostChange n = emit (HostChange n)"

definition emitPlayerColor :: "string \<Rightarrow> int \<Rightarrow> PublicLobbyBackend \<Rightarrow> PublicLobbyBackend" where
  "emitPlayerColor n c = emit (PlayerColor n c)"

definition emitPlayerFlags ::
  "string \<Rightarrow> PlayerFlag \<Rightarrow> bool \<Rightarrow> PublicLobbyBackend \<Rightarrow> PublicLobbyBackend" where
  "emitPlayerFlags n f v = emit (PlayerFlags n f v)"

definition emitSettingsUpdate :: "GameSettings \<Rightarrow> PublicLobbyBackend \<Rightarrow> PublicLobbyBackend" where
  "emitSettingsUpdate st = emit (SettingsUpdate st)"

definition call' :: "call \<Rightarrow> PublicLobbyBackend \<Rightarrow> PublicLobbyBackend" where
  "call' c b = b\<lparr>calls := calls b @ [c]\<rparr>"

section \<open>Notification handlers\<close>

subsection \<open>\<open>player.syncsettings\<close>\<close>

text \<open>
  The notification carries the full game options, of which the handler reads
  \<open>crewmateVision\<close> and \<open>map\<close>. Each field of the mirror is assigned (and a line is
  logged) when it differs; the mirror is then emitted, outside both conditionals.
\<close>

definition on_syncsettings ::
  "'a GameSettings_scheme \<Rightarrow> PublicLobbyBackend \<Rightarrow> PublicLobbyBackend" where
  "on_syncsettings st b =
     (let b1 = (if crewmateVision st \<noteq> crewmateVision (settings b)
                then log' Info [Str ''Crewmate vision is now set to '', Num (crewmateVision st), Str ''.'']
                       (b\<lparr>settings := (settings b)\<lparr>crewmateVision := crewmateVision st\<rparr>\<rparr>)
                else b);
          b2 = (if map' st \<noteq> map' (settings b1)
                then log' Info [Str ''Map is now set to '', Intg (map' st), Str ''.'']
                       (b1\<lparr>settings := (settings b1)\<lparr>map' := map' st\<rparr>\<rparr>)
                else b1)
      in emitSettingsUpdate (settings b2) b2)"

subsection \<open>\<open>player.murder\<close>\<close>

definition on_murder ::
  "PlayerData option \<Rightarrow> PlayerData option \<Rightarrow> PublicLobbyBackend \<Rightarrow> PublicLobbyBackend" where
  "on_murder player victim b =
     (case victim of
        Some v \<Rightarrow>
          (case data v of
             Some d \<Rightarrow>
               emitPlayerFlags (name d) IsDead True
                 (log' Info [Name player, Str ''murdered'', Name victim, Str ''.''] b)
           | None \<Rightarrow> log' Warn [Str ''Someone got murdered, but there was no data.''] b)
      | None \<Rightarrow> log' Warn [Str ''Someone got murdered, but there was no data.''] b)"

section \<open>Lifecycle\<close>

subsection \<open>\<open>destroy\<close>\<close>

text \<open>
  The client is dropped right after its \<open>disconnect\<close>, so what the call leaves in the
  client object is not observed; \<open>disconnect\<close> is taken to resolve.
\<close>

definition destroy :: "PublicLobbyBackend \<Rightarrow> PublicLobbyBackend" where
  "destroy b =
     (if destroyed b then b
      else
        let b1 = (case client b of
                    Some c \<Rightarrow>
                      if socket c
                      then (call' Disconnect (call' (RemoveListeners ''client.disconnect'') b))
                             \<lparr>client := None\<rparr>
                      else b
                  | None \<Rightarrow> b)
        in (log' Info [Str ''Destroyed PublicLobbyBackend.''] b1)\<lparr>destroyed := True\<rparr>)"

text \<open>Counting the events of one kind in a trace.\<close>

fun is_SettingsUpdate :: "event \<Rightarrow> bool" where
  "is_SettingsUpdate (SettingsUpdate _) = True"
| "is_SettingsUpdate _ = False"

definition count_SettingsUpdate :: "event list \<Rightarrow> nat" where
  "count_SettingsUpdate evs = length (filter is_SettingsUpdate evs)"

definition count_mode :: "LogMode \<Rightarrow> log_line list \<Rightarrow> nat" where
  "count_mode m ls = length (filter (\<lambda>l. fst l = m) ls)"


section \<open>The outside world\<close>

text \<open>
  An asynchronous method settles with a value, settles with an exception, or stays
  pending for ever on an answer that never comes.
\<close>

datatype 'a outcome = Return 'a | Throw string | Pending

text \<open>
  What the token helper process does within the two seconds \<open>getAuthToken\<close> gives it:
  it prints a token, it fails, or neither.
\<close>

datatype proc_result = Answered nat | ProcError string | Silent

text \<open>The three payloads \<open>joinGame\<close> waits for.\<close>

datatype payload = JoinError int | Redirect string nat | JoinedGame

text \<open>
  What the spawn-and-settings wait of \<open>initialSpawn\<close> observes within its five seconds:
  the players of the shared game data that \<open>awaitSpawns\<close> announces, whether every
  spawn arrived, the settings a \<open>player.syncsettings\<close> carried, and the client afterwards.
\<close>

record await_result =
  announced :: "(string \<times> int) list"
  spawned :: bool
  synced :: "GameSettings option"
  after :: SkeldjsClient

text \<open>
  The protocol client, the token helper and the tables of \<open>skeldjs\<close> are not part of
  the sources. They are parameters: each answer may depend on the whole history of calls
  and on the client object, and each call on the client yields the client object as it is
  afterwards.
\<close>

record Env =
  Code2Int :: "string \<Rightarrow> int"
  DisconnectMessages :: "int \<Rightarrow> string"
  helper :: "call list \<Rightarrow> proc_result"
  new_client :: "call list \<Rightarrow> SkeldjsClient"
  on_connect :: "call list \<Rightarrow> SkeldjsClient \<Rightarrow> string + SkeldjsClient"
  on_identify :: "call list \<Rightarrow> SkeldjsClient \<Rightarrow> string + SkeldjsClient"
  on_disconnect :: "call list \<Rightarrow> SkeldjsClient \<Rightarrow> SkeldjsClient"
  on_waitPayload :: "call list \<Rightarrow> SkeldjsClient \<Rightarrow> (payload \<times> SkeldjsClient) option"
  on_spawnSelf :: "call list \<Rightarrow> SkeldjsClient \<Rightarrow> SkeldjsClient"
  on_await :: "call list \<Rightarrow> SkeldjsClient \<Rightarrow> await_result"
  on_announce :: "call list \<Rightarrow> SkeldjsClient \<Rightarrow> SkeldjsClient option"

subsection \<open>Strings and indexing as JavaScript has them\<close>

fun show_nat :: "nat \<Rightarrow> string" where
  "show_nat n =
     (if n < 10 then [char_of (48 + n)]
      else show_nat (n div 10) @ [char_of (48 + n mod 10)])"

definition show_int :: "int \<Rightarrow> string" where
  "show_int i = (if i < 0 then ''-'' @ show_nat (nat (- i)) else show_nat (nat i))"

text \<open>\<open>s.includes(needle)\<close>.\<close>

primrec includes_str :: "string \<Rightarrow> string \<Rightarrow> bool" where
  "includes_str [] needle = (needle = [])"
| "includes_str (c # cs) needle = (take (length needle) (c # cs) = needle \<or> includes_str cs needle)"

text \<open>\<open>xs[i]\<close>: \<open>undefined\<close> out of range.\<close>

definition lookup_index :: "'a list \<Rightarrow> nat \<Rightarrow> 'a option" where
  "lookup_index xs i = (if i < length xs then Some (xs ! i) else None)"

text \<open>\<open>xs[i] = v\<close> on an array with holes: a write past the end extends the array.\<close>

definition array_set :: "'a option list \<Rightarrow> nat \<Rightarrow> 'a \<Rightarrow> 'a option list" where
  "array_set xs i v =
     (if i < length xs then xs[i := Some v]
      else xs @ replicate (i - length xs) None @ [Some v])"

text \<open>Reading an array with holes: a hole and a place past the end both read as nothing.\<close>

definition array_get :: "'a option list \<Rightarrow> nat \<Rightarrow> 'a option" where
  "array_get xs i = (if i < length xs then xs ! i else None)"

definition TypeError :: string where
  "TypeError = ''Cannot read property of undefined''"

section \<open>Authorisation token\<close>

text \<open>
  \<open>getAuthToken\<close>: the promise is settled by whichever comes first of the token on the
  helper's output, the helper's error, and the timer of 2000 ms, whose rejection is the
  answer when the helper stays silent. Reading \<open>server[0]\<close> of a missing server rejects
  at once.
\<close>

definition getAuthToken_timeout_ms :: nat where
  "getAuthToken_timeout_ms = 2000"

definition getAuthToken ::
  "'x Env_scheme \<Rightarrow> endpoint option \<Rightarrow> PublicLobbyBackend
     \<Rightarrow> (string + nat) \<times> PublicLobbyBackend" where
  "getAuthToken e srv b =
     (let b1 = call' (GetAuthToken srv) b
      in case srv of
           None \<Rightarrow> (Inl TypeError, b1)
         | Some s \<Rightarrow>
             (case helper e (calls b1) of
                Answered t \<Rightarrow> (Inr t, b1)
              | ProcError m \<Rightarrow> (Inl m, b1)
              | Silent \<Rightarrow> (Inl ''GetAuthToken took too long to get a token.'', b1)))"

partial_function (option) tryGetAuthToken ::
  "'x Env_scheme \<Rightarrow> endpoint option \<Rightarrow> int \<Rightarrow> PublicLobbyBackend
     \<Rightarrow> (nat \<times> PublicLobbyBackend) option" where
  "tryGetAuthToken e srv cur_attempt b =
     (case getAuthToken e srv b of
        (Inr tok, b1) \<Rightarrow> Some (tok, b1)
      | (Inl msg, b1) \<Rightarrow>
          (let cur = cur_attempt + 1;
               remaining = 5 - cur;
               b2 = log' Error_mode
                      [Str ''Failed to get authorisation token, trying '', Intg remaining,
                       Str '' more times. '', Str msg] b1
           in if remaining \<noteq> 0 then tryGetAuthToken e srv cur b2
              else Some (0, log' Error_mode
                     [Str ''Failed to get authorisation token from the server, using 0.''] b2)))"

declare tryGetAuthToken.simps [code]

text \<open>The log line written for a failed attempt.\<close>

fun is_token_failure :: "log_line \<Rightarrow> bool" where
  "is_token_failure (Error_mode, Str s # _) = (s = ''Failed to get authorisation token, trying '')"
| "is_token_failure _ = False"

fun is_GetAuthToken :: "call \<Rightarrow> bool" where
  "is_GetAuthToken (GetAuthToken _) = True"
| "is_GetAuthToken _ = False"

text \<open>
  What a run of \<open>tryGetAuthToken\<close> with a budget of attempts looks like from outside:
  \<open>k\<close> runs of \<open>getAuthToken\<close>, ended by a token, or by the sentinel once the budget
  is used up.
\<close>

definition token_run ::
  "'x Env_scheme \<Rightarrow> endpoint option \<Rightarrow> nat \<Rightarrow> PublicLobbyBackend \<Rightarrow> nat \<Rightarrow> PublicLobbyBackend
     \<Rightarrow> nat \<Rightarrow> bool" where
  "token_run e srv budget b tok b' k \<longleftrightarrow>
     1 \<le> k \<and> k \<le> budget
     \<and> calls b' = calls b @ replicate k (GetAuthToken srv)
     \<and> emitted b' = emitted b
     \<and> ((helper e (calls b') = Answered tok \<and> srv \<noteq> None
          \<and> length (logged b') = length (logged b) + (k - 1)
          \<and> length (filter is_token_failure (logged b'))
              = length (filter is_token_failure (logged b)) + (k - 1))
         \<or> (k = budget \<and> tok = 0
          \<and> length (filter is_token_failure (logged b'))
              = length (filter is_token_failure (logged b)) + k
          \<and> logged b' \<noteq> []
          \<and> last (logged b')
              = (Error_mode, [Str ''Failed to get authorisation token from the server, using 0.''])))"


section \<open>Joining a game\<close>

text \<open>\<open>this.client.disconnect()\<close> and \<open>this.client.spawnSelf()\<close>.\<close>

definition client_disconnect :: "'x Env_scheme \<Rightarrow> PublicLobbyBackend \<Rightarrow> PublicLobbyBackend" where
  "client_disconnect e b =
     (case client b of
        None \<Rightarrow> b
      | Some c \<Rightarrow>
          (let b1 = call' Disconnect b
           in b1\<lparr>client := Some (on_disconnect e (calls b1) c)\<rparr>))"

definition spawnSelf :: "'x Env_scheme \<Rightarrow> PublicLobbyBackend \<Rightarrow> PublicLobbyBackend" where
  "spawnSelf e b =
     (case client b of
        None \<Rightarrow> b
      | Some c \<Rightarrow>
          (let b1 = call' SpawnSelf b
           in b1\<lparr>client := Some (on_spawnSelf e (calls b1) c)\<rparr>))"

text \<open>
  The three statements that \<open>joinGame\<close> runs at two places (before the join request when
  the client sits in another game, and on a redirect): disconnect, fetch a token for
  \<open>tok_srv\<close>, connect with the user name and the token. On a redirect the target is the
  payload's address; before the join request it is the address the client already has.
  The result is the message of the exception, if \<open>connect\<close> raised one.
\<close>

definition relocate ::
  "'x Env_scheme \<Rightarrow> endpoint option \<Rightarrow> endpoint option \<Rightarrow> string option \<Rightarrow> PublicLobbyBackend
     \<Rightarrow> (string option \<times> PublicLobbyBackend) option" where
  "relocate e tok_srv target user b =
     (let b1 = client_disconnect e b
      in case tryGetAuthToken e tok_srv 0 b1 of
           None \<Rightarrow> None
         | Some (tok, b2) \<Rightarrow>
             (let b3 = b2\<lparr>authToken := tok\<rparr>
              in case client b3 of
                   None \<Rightarrow> Some (Some TypeError, b3)
                 | Some c \<Rightarrow>
                     (let b4 = call' (case target of
                                        Some (i, p) \<Rightarrow> Connect (Some i) user (Some tok) (Some p)
                                      | None \<Rightarrow> Connect (ip c) user (Some tok) (port c)) b3
                      in case on_connect e (calls b4) c of
                           Inl m \<Rightarrow> Some (Some m, b4)
                         | Inr c' \<Rightarrow> Some (None, b4\<lparr>client := Some c'\<rparr>))))"

text \<open>The message of the error thrown on a join error; \<open>reason\<close> is the protocol's reason.\<close>

definition join_error_msg :: "'x Env_scheme \<Rightarrow> int \<Rightarrow> string" where
  "join_error_msg e reason =
     ''Join error: Failed to join game, code: '' @ show_int reason
       @ '' (Message: '' @ DisconnectMessages e reason @ '')''"

text \<open>
  \<open>joinGame(code, doSpawn)\<close>. It returns the joined code, or \<open>null\<close> without a client or
  an identification; it throws on a join error; it stays pending when none of the three
  payloads ever arrives. A chain of redirects that never ends has no result.
\<close>

partial_function (option) joinGame ::
  "'x Env_scheme \<Rightarrow> code_arg \<Rightarrow> bool \<Rightarrow> PublicLobbyBackend
     \<Rightarrow> (int option outcome \<times> PublicLobbyBackend) option" where
  "joinGame e cd doSpawn b =
     (case cd of
        NoCode \<Rightarrow> Some (Throw ''No code provided.'', b)
      | StrCode s \<Rightarrow> joinGame e (IntCode (Code2Int e s)) doSpawn b
      | IntCode n \<Rightarrow>
          (case client b of
             None \<Rightarrow> Some (Return None, b)
           | Some c \<Rightarrow>
               if \<not> identified c then Some (Return None, b)
               else
                 (case (if me c \<noteq> None \<and> code c \<noteq> Some n
                        then relocate e (lookup_index (master b) (server b)) None (username c) b
                        else Some (None, b)) of
                    None \<Rightarrow> None
                  | Some (Some m, b1) \<Rightarrow> Some (Throw m, b1)
                  | Some (None, b1) \<Rightarrow>
                      (case client b1 of
                         None \<Rightarrow> Some (Throw TypeError, b1)
                       | Some c1 \<Rightarrow>
                           (let b2 = call' WaitPayload (call' (SendJoinGame n) b1)
                            in case on_waitPayload e (calls b2) c1 of
                                 None \<Rightarrow> Some (Pending, b2)
                               | Some (pl, c2) \<Rightarrow>
                                   (let b3 = b2\<lparr>client := Some c2\<rparr>
                                    in case pl of
                                         JoinError reason \<Rightarrow>
                                           Some (Throw (join_error_msg e reason), b3)
                                       | Redirect rip rport \<Rightarrow>
                                           (case relocate e (Some (rip, rport)) (Some (rip, rport))
                                                   (username c2) b3 of
                                              None \<Rightarrow> None
                                            | Some (Some m, b4) \<Rightarrow> Some (Throw m, b4)
                                            | Some (None, b4) \<Rightarrow> joinGame e (IntCode n) doSpawn b4)
                                       | JoinedGame \<Rightarrow>
                                           (let b4 = (if doSpawn then spawnSelf e b3 else b3)
                                            in Some (Return (Option.bind (client b4) code), b4))))))))"

declare joinGame.simps [code]

section \<open>The entity caches\<close>

text \<open>
  \<open>resetObjectCaches\<close>. The source stores the array \<open>client.components\<close> itself in
  \<open>global_cache\<close>; the model keeps its content at that moment.
\<close>

definition resetObjectCaches :: "PublicLobbyBackend \<Rightarrow> PublicLobbyBackend" where
  "resetObjectCaches b =
     (case client b of
        None \<Rightarrow> b
      | Some c \<Rightarrow>
          b\<lparr> players_cache :=
               Some (filter (\<lambda>(objectid, ob). objectid \<noteq> clientid c \<and> objectid > 0) (objects c)),
             components_cache :=
               Some (filter (\<lambda>(k, component). ownerid component \<noteq> clientid c) (netobjects c)),
             global_cache := Some (components c) \<rparr>)"

definition disconnect :: "'x Env_scheme \<Rightarrow> PublicLobbyBackend \<Rightarrow> PublicLobbyBackend" where
  "disconnect e b = client_disconnect e (resetObjectCaches b)"

text \<open>
  The three loops of \<open>doJoin\<close> that put the cached entities into the client that has just
  joined: \<open>object.room = this.client\<close>, then \<open>Map.set\<close> under the cached key, or an
  array write at the cached index. A hole of the array is passed over. (The values of
  the two maps cannot be \<open>null\<close> by their type, so the same test in the first two loops
  never fires.)
\<close>

definition reattach_map ::
  "nat \<Rightarrow> (int \<times> 'a Heritable_scheme) list \<Rightarrow> (int \<times> 'a Heritable_scheme) list
     \<Rightarrow> (int \<times> 'a Heritable_scheme) list" where
  "reattach_map r cache registry =
     fold (\<lambda>(k, ob) reg. AList.update k (ob\<lparr>room := r\<rparr>) reg) cache registry"

definition reattach_array ::
  "nat \<Rightarrow> 'a Heritable_scheme option list \<Rightarrow> 'a Heritable_scheme option list
     \<Rightarrow> 'a Heritable_scheme option list" where
  "reattach_array r cache registry =
     fold (\<lambda>i reg. case cache ! i of
                      None \<Rightarrow> reg
                    | Some component \<Rightarrow> array_set reg i (component\<lparr>room := r\<rparr>))
          [0 ..< length cache] registry"

definition reattach ::
  "(int \<times> PlayerData) list \<Rightarrow> (int \<times> Networkable) list \<Rightarrow> Networkable option list
     \<Rightarrow> SkeldjsClient \<Rightarrow> SkeldjsClient" where
  "reattach pc cc gc c =
     c\<lparr> objects := reattach_map (cref c) pc (objects c),
        netobjects := reattach_map (cref c) cc (netobjects c),
        components := reattach_array (cref c) gc (components c) \<rparr>"

text \<open>
  One past the index of the last entry of an array with holes that is not a hole; 0 when
  there is none.
\<close>

definition last_entry :: "'a option list \<Rightarrow> nat" where
  "last_entry gc = length (dropWhile (\<lambda>x. x = None) (rev gc))"


section \<open>The first join\<close>

text \<open>
  \<open>connect(ip, undefined, undefined, port)\<close> followed by \<open>identify("Roundcar", token)\<close>,
  the body of the first \<open>try\<close> block of \<open>initialSpawn\<close> and of \<open>doJoin\<close>. On an
  exception the result is its message. In \<open>initialSpawn\<close> the identification is raced
  against two seconds: the race is over either way, and the flag \<open>identified\<close> of the
  client tells how.
\<close>

definition connect_and_identify ::
  "'x Env_scheme \<Rightarrow> string \<Rightarrow> nat \<Rightarrow> PublicLobbyBackend
     \<Rightarrow> (string \<times> PublicLobbyBackend) + PublicLobbyBackend" where
  "connect_and_identify e sip sport b =
     (case client b of
        None \<Rightarrow> Inl (TypeError, b)
      | Some c \<Rightarrow>
          (let b1 = call' (Connect (Some sip) None None (Some sport)) b
           in case on_connect e (calls b1) c of
                Inl m \<Rightarrow> Inl (m, b1)
              | Inr c1 \<Rightarrow>
                  (let b2 = call' (Identify ''Roundcar'' (authToken b1)) (b1\<lparr>client := Some c1\<rparr>)
                   in case on_identify e (calls b2) c1 of
                        Inl m \<Rightarrow> Inl (m, b2)
                      | Inr c2 \<Rightarrow> Inr (b2\<lparr>client := Some c2\<rparr>))))"

definition servers_full_msg :: string where
  "servers_full_msg = ''Couldn't connect to the Among Us servers, the servers may be full. Try a different region or try again later.''"

definition join_timeout_msg :: string where
  "join_timeout_msg = ''Timed out while connecting to servers.''"

definition no_spawns_msg :: string where
  "no_spawns_msg = ''Did not recieve players and settings, please restart your Among Us lobby, or wait a few minutes and try again.''"

definition no_settings_msg :: string where
  "no_settings_msg = ''Did not recieve game settings, please restart your Among Us lobby, or wait a few minutes and try again.''"

text \<open>\<open>if (isFinal) this.emitError(msg, true)\<close>.\<close>

definition emit_if_final :: "bool \<Rightarrow> string \<Rightarrow> PublicLobbyBackend \<Rightarrow> PublicLobbyBackend" where
  "emit_if_final isFinal msg b = (if isFinal then emitError msg True b else b)"

text \<open>A code is falsy when it is missing or zero.\<close>

definition falsy_code :: "int option \<Rightarrow> bool" where
  "falsy_code cd = (cd = None \<or> cd = Some 0)"

text \<open>
  The second half of \<open>initialSpawn\<close>, from "Successfully joined room." on, in three
  steps. First the report on the lobby once the settings \<open>st\<close> are known: mirror them,
  emit them, emit the host if it has data, emit the colour of every player with data.
\<close>

definition report_lobby ::
  "GameSettings \<Rightarrow> SkeldjsClient \<Rightarrow> PublicLobbyBackend \<Rightarrow> PublicLobbyBackend" where
  "report_lobby st c b =
     (let b5 = b\<lparr>settings := (settings b)\<lparr>map' := map' st,
                                              crewmateVision := crewmateVision st\<rparr>\<rparr>;
          b6 = emitSettingsUpdate
                 \<lparr>map' = map' st, crewmateVision = crewmateVision (settings b5)\<rparr> b5;
          b7 = log' Info [Str ''Map is on '', Intg (map' st)]
                 (log' Info [Str ''Crewmate vision is at '', Num (crewmateVision st)] b6);
          b8 = (case host c of
                  None \<Rightarrow> b7
                | Some h \<Rightarrow>
                    (case data h of
                       None \<Rightarrow> b7
                     | Some d \<Rightarrow> emitHostChange (name d) b7));
          b9 = log' Info [Str ''Cleaning up and preparing for re-join..'']
                 (log' Success [Str ''Got spawns and settings.''] b8)
      in fold (\<lambda>(k, p) s. case data p of
                             None \<Rightarrow> s
                           | Some d \<Rightarrow> emitPlayerColor (name d) (color d) s)
           (players c) b9)"

text \<open>
  Then the announcement (name, colour, chat line, each through \<open>client.me\<close>, and the
  wait for the name to come back, which may never end), and the disconnect that fills
  the caches.
\<close>

definition announce_and_leave ::
  "'x Env_scheme \<Rightarrow> SkeldjsClient \<Rightarrow> PublicLobbyBackend
     \<Rightarrow> (ConnectionErrorCode outcome \<times> PublicLobbyBackend) option" where
  "announce_and_leave e c b =
     (case me c of
        None \<Rightarrow> Some (Throw TypeError, b)
      | Some m \<Rightarrow>
          (let b11 = call' Announce b
           in case on_announce e (calls b11) c of
                None \<Rightarrow> Some (Pending, b11)
              | Some c' \<Rightarrow> Some (Return None_code, disconnect e (b11\<lparr>client := Some c'\<rparr>))))"

text \<open>
  \<open>Promise.race([Promise.all([awaitSpawns(), awaitSettings()]), sleep(5000)])\<close>:
  nothing when the five seconds win; else the settings, which \<open>awaitSettings\<close> takes
  from the client when it has them and from the next \<open>player.syncsettings\<close> otherwise.
\<close>

definition await_both :: "SkeldjsClient \<Rightarrow> await_result \<Rightarrow> GameSettings option option" where
  "await_both c r =
     (if spawned r
      then (case csettings c of
              Some st \<Rightarrow> Some (Some st)
            | None \<Rightarrow> map_option Some (synced r))
      else None)"

definition initialSpawn_joined ::
  "'x Env_scheme \<Rightarrow> bool \<Rightarrow> PublicLobbyBackend
     \<Rightarrow> (ConnectionErrorCode outcome \<times> PublicLobbyBackend) option" where
  "initialSpawn_joined e isFinal b =
     (let b1 = log' Info [Str ''Waiting for spawns and settings..'']
                 (log' Success [Str ''Successfully joined room.''] b)
      in case client b1 of
           None \<Rightarrow> Some (Throw TypeError, b1)
         | Some c \<Rightarrow>
             if falsy_code (code c) then Some (Return FailedToJoin, b1)
             else
               (let b3 = call' AwaitSpawnsAndSettings (spawnSelf e b1);
                    c3 = (case client b3 of Some c' \<Rightarrow> c' | None \<Rightarrow> c);
                    r = on_await e (calls b3) c3;
                    b4 = fold (\<lambda>(n, col). emitPlayerColor n col) (announced r)
                           (b3\<lparr>client := Some (after r)\<rparr>)
                in case await_both c3 r of
                     None \<Rightarrow>
                       Some (Return TimedOut,
                             emit_if_final isFinal no_spawns_msg
                               (log' Fatal [Str ''I didn't receive either spawns or settings from the host.''] b4))
                   | Some None \<Rightarrow>
                       Some (Return TimedOut,
                             emit_if_final isFinal no_settings_msg
                               (log' Fatal [Str ''I didn't receive settings from the host.''] b4))
                   | Some (Some st) \<Rightarrow>
                       announce_and_leave e (after r) (report_lobby st (after r) b4)))"

text \<open>
  The middle of \<open>initialSpawn\<close>: the join, raced against five seconds. A join that
  stays pending, or that returns no code, loses the race. \<open>e.toString()\<close> of an
  \<open>Error\<close> is its message after \<open>"Error: "\<close>.
\<close>

definition initialSpawn_join ::
  "'x Env_scheme \<Rightarrow> bool \<Rightarrow> PublicLobbyBackend
     \<Rightarrow> (ConnectionErrorCode outcome \<times> PublicLobbyBackend) option" where
  "initialSpawn_join e isFinal b1 =
     (case joinGame e (gameCode b1) False
             (log' Info [Str ''Joining room..'']
                (log' Success [Str ''Successfully connected.''] b1)) of
        None \<Rightarrow> None
      | Some (Throw msg, b3) \<Rightarrow>
          Some (Return (if includes_str (''Error: '' @ msg) ''Could not find the game''
                        then GameNotFound else FailedToJoin),
                log' Fatal [Str (''Error: '' @ msg)] b3)
      | Some (Pending, b3) \<Rightarrow>
          Some (Return TimedOut, emit_if_final isFinal join_timeout_msg b3)
      | Some (Return cd, b3) \<Rightarrow>
          if falsy_code cd
          then Some (Return TimedOut, emit_if_final isFinal join_timeout_msg b3)
          else initialSpawn_joined e isFinal b3)"

text \<open>Whether \<open>this.client.identified\<close> holds.\<close>

definition client_identified :: "PublicLobbyBackend \<Rightarrow> bool" where
  "client_identified b = (case client b of Some c \<Rightarrow> identified c | None \<Rightarrow> False)"

text \<open>\<open>initialSpawn(isFinal)\<close>, from its start to the identification.\<close>

definition initialSpawn ::
  "'x Env_scheme \<Rightarrow> bool \<Rightarrow> PublicLobbyBackend
     \<Rightarrow> (ConnectionErrorCode outcome \<times> PublicLobbyBackend) option" where
  "initialSpawn e isFinal b0 =
     (let b = call' (InitialSpawn isFinal) b0
      in case lookup_index (master b) (server b) of
           None \<Rightarrow> Some (Throw TypeError, b)
         | Some (sip, sport) \<Rightarrow>
             (case client b of
                None \<Rightarrow> Some (Return NoClient, b)
              | Some c \<Rightarrow>
                  (case connect_and_identify e sip sport
                          (log' Info [Str ''Joining for the first time with server '', Str sip,
                                      Intg (int sport)] b) of
                     Inl (msg, b1) \<Rightarrow>
                       Some (Return FailedToConnect,
                             emitError servers_full_msg True (log' Fatal [Str (''Error: '' @ msg)] b1))
                   | Inr b1 \<Rightarrow>
                       if \<not> client_identified b1
                       then Some (Return TimedOut, emit_if_final isFinal servers_full_msg b1)
                       else initialSpawn_join e isFinal b1)))"

section \<open>The supervisor loop \<open>doJoin\<close>\<close>

text \<open>
  One round of \<open>doJoin\<close> is its first-join block (run while a cache is missing) followed
  by its re-join block. Each block ends the call, or asks for another round, which the
  source starts as \<open>doJoin(max_attempts, attempt)\<close> after \<open>attempt++\<close>; the first-join
  block may also hand over to the re-join block.
\<close>

datatype phase = Done "bool outcome" | Retry | Proceed

definition game_not_found_msg :: string where
  "game_not_found_msg = ''Couldn't find the game, make sure that you entered the code correctly and you are using the correct region.''"

definition failed_to_join_msg :: string where
  "failed_to_join_msg = ''Couldn't join the game, make sure that the game hasn't started and there is a spot for the client.''"

definition exhausted_msg :: "int \<Rightarrow> string" where
  "exhausted_msg max_attempts =
     ''Couldn't join the game after '' @ show_int max_attempts
       @ '' attempts, make sure that the game hasn't started and there is a spot for the client.''"

text \<open>\<open>this.server++; this.server = this.server % this.master.length\<close>.\<close>

definition next_server :: "PublicLobbyBackend \<Rightarrow> PublicLobbyBackend" where
  "next_server b = b\<lparr>server := (server b + 1) mod length (master b)\<rparr>"

text \<open>The block \<open>if (!this.players_cache || !this.components_cache || !this.global_cache)\<close>.\<close>

definition warmup_phase ::
  "'x Env_scheme \<Rightarrow> int \<Rightarrow> int \<Rightarrow> PublicLobbyBackend \<Rightarrow> (phase \<times> PublicLobbyBackend) option" where
  "warmup_phase e max_attempts attempt b =
     (case initialSpawn e (attempt \<ge> max_attempts) b of
        None \<Rightarrow> None
      | Some (Pending, b1) \<Rightarrow> Some (Done Pending, b1)
      | Some (Throw m, b1) \<Rightarrow> Some (Done (Throw m), b1)
      | Some (Return err, b1) \<Rightarrow>
          if err = GameNotFound
          then Some (Done (Return False),
                     emitError game_not_found_msg True (log' Fatal [Str ''Couldn't find game.''] b1))
          else if err = FailedToJoin
          then Some (Done (Return False),
                     emitError failed_to_join_msg True (log' Fatal [Str ''Couldn't join game.''] b1))
          else if err \<noteq> None_code
          then
            (if err \<noteq> NoClient \<and> client b1 = None then Some (Done (Throw TypeError), b1)
             else
               (let b2 = (if err \<noteq> NoClient then client_disconnect e b1 else b1);
                    b3 = next_server b2;
                    remaining = max_attempts - (attempt + 1);
                    b4 = (if remaining = 0
                          then emitError (''Couldn't connect to the server after ''
                                          @ show_int max_attempts @ '' attempts.'') False
                                 (log' Warn [Str ''Failed to initially spawn after'',
                                             Intg max_attempts, Str ''attempts.''] b3)
                          else emitError (''Couldn't connect to the server. Retrying ''
                                          @ show_int remaining @ '' more time ''
                                          @ (if remaining = 1 then [] else ''s'') @ ''.'') False
                                 (log' Warn [Str ''Failed to initially spawn, Retrying'',
                                             Intg remaining,
                                             Str (''more time'' @ (if remaining = 1 then [] else ''s'') @ '',''),
                                             Str ''also trying another server.''] b3))
                in Some (Retry, b4)))
          else Some (Proceed, b1))"

text \<open>The rest of \<open>doJoin\<close>, from the second test of \<open>this.destroyed\<close> on.\<close>

definition rejoin_phase ::
  "'x Env_scheme \<Rightarrow> int \<Rightarrow> int \<Rightarrow> PublicLobbyBackend \<Rightarrow> (phase \<times> PublicLobbyBackend) option" where
  "rejoin_phase e max_attempts attempt b =
     (if destroyed b then Some (Done (Return False), b)
      else
        case lookup_index (master b) (server b) of
          None \<Rightarrow> Some (Done (Throw TypeError), b)
        | Some (sip, sport) \<Rightarrow>
            (case connect_and_identify e sip sport
                    (log' Info [Str ''Joining game with server '', Str sip, Intg (int sport),
                                Str '', not spawning, attempt #'', Intg (attempt + 1)] b) of
               Inl (msg, b1) \<Rightarrow>
                 (let b2 = next_server b1;
                      remaining = max_attempts - (attempt + 1)
                  in Some (Retry,
                           emitError (''Couldn't connect to the server. Retrying ''
                                      @ show_int remaining @ '' more times.'') False
                             (log' Warn [Str (''Failed to connect ('' @ msg @ ''), Retrying ''),
                                         Intg remaining,
                                         Str '' more times, also trying another server.''] b2)))
             | Inr b1 \<Rightarrow>
                 (let b2 = log' Info [Str ''Successfully connected to server.''] b1
                  in case joinGame e (gameCode b2) False b2 of
                       None \<Rightarrow> None
                     | Some (Pending, b3) \<Rightarrow> Some (Done Pending, b3)
                     | Some (Throw msg, b3) \<Rightarrow>
                         if includes_str msg ''Could not find the game you're looking for.''
                         then Some (Done (Return False), log' Fatal [Str (''Error: '' @ msg)] b3)
                         else
                           (let remaining = max_attempts - (attempt + 1)
                            in Some (Retry,
                                     emitError (msg @ ''. Retrying '' @ show_int remaining
                                                @ '' more times.'') False
                                       (log' Warn [Str (''Failed to join game ('' @ msg @ ''), Retrying ''),
                                                   Intg remaining, Str '' more times.''] b3)))
                     | Some (Return cd, b3) \<Rightarrow>
                         (case (players_cache b3, components_cache b3, global_cache b3) of
                            (Some pc, Some cc, Some gc) \<Rightarrow>
                              (let b4 = log' Info [Str ''Replacing state with cached state.. '',
                                                   Intg (int (length pc)), Intg (int (length cc)),
                                                   Intg (int (length gc))]
                                          (log' Success [Str ''Successfully joined!''] b3)
                               in case client b4 of
                                    None \<Rightarrow> Some (Done (Return False), destroy b4)
                                  | Some c \<Rightarrow>
                                      (let c' = reattach pc cc gc c;
                                           b5 = log' Success [Str ''Joined & successfully replaced state!'']
                                                  (b4\<lparr>client := Some c'\<rparr>);
                                           b6 = (case host c' of
                                                   None \<Rightarrow> b5
                                                 | Some h \<Rightarrow>
                                                     (case data h of
                                                        None \<Rightarrow> b5
                                                      | Some d \<Rightarrow>
                                                          emitHostChange (name d)
                                                            (log' Success [Str ''Found host: '', Name (Some h)] b5)))
                                       in Some (Done (Return True), b6)))
                          | _ \<Rightarrow> Some (Done (Throw TypeError), log' Success [Str ''Successfully joined!''] b3)))))"

text \<open>
  \<open>if (!this.client) this.client = new SkeldjsClient(...)\<close>; \<open>new_client\<close> is the
  object the constructor of the protocol client returns.
\<close>

definition with_client :: "'x Env_scheme \<Rightarrow> PublicLobbyBackend \<Rightarrow> PublicLobbyBackend" where
  "with_client e b =
     (if client b = None
      then (let b' = call' NewClient b in b'\<lparr>client := Some (new_client e (calls b'))\<rparr>)
      else b)"

text \<open>
  \<open>doJoin(max_attempts = 5, attempt = 0)\<close>. The re-join block never hands over, so the
  last case of the inner distinction is never taken.
\<close>

function doJoin ::
  "'x Env_scheme \<Rightarrow> int \<Rightarrow> int \<Rightarrow> PublicLobbyBackend \<Rightarrow> (bool outcome \<times> PublicLobbyBackend) option" where
  "doJoin e max_attempts attempt b =
     (if destroyed b then Some (Return False, b)
      else if attempt \<ge> max_attempts
      then Some (Return False,
                 emitError (exhausted_msg max_attempts) True (log' Fatal [Str ''Couldn't join game.''] b))
      else
        (let b0 = with_client e b
         in case (if players_cache b0 = None \<or> components_cache b0 = None \<or> global_cache b0 = None
                  then warmup_phase e max_attempts attempt b0
                  else Some (Proceed, b0)) of
              None \<Rightarrow> None
            | Some (Done r, b1) \<Rightarrow> Some (r, b1)
            | Some (Retry, b1) \<Rightarrow> doJoin e max_attempts (attempt + 1) b1
            | Some (Proceed, b1) \<Rightarrow>
                (case rejoin_phase e max_attempts attempt b1 of
                   None \<Rightarrow> None
                 | Some (Done r, b2) \<Rightarrow> Some (r, b2)
                 | Some (Retry, b2) \<Rightarrow> doJoin e max_attempts (attempt + 1) b2
                 | Some (Proceed, b2) \<Rightarrow> Some (Return True, b2))))"
  by pat_completeness auto
termination
  by (relation "measure (\<lambda>(e, max_attempts, attempt, b). nat (max_attempts - attempt))") auto

declare doJoin.simps [simp del]

section \<open>\<open>player.sethost\<close>\<close>

text \<open>
  The handler awaits \<open>doJoin()\<close> with its default arguments. The \<open>destroy()\<close> after a
  failed re-join is started without being awaited; it is taken here as run to its end.
  \<open>players.size\<close> is the number of entries of the map.
\<close>

definition on_sethost ::
  "'x Env_scheme \<Rightarrow> PlayerData option \<Rightarrow> PublicLobbyBackend
     \<Rightarrow> (unit outcome \<times> PublicLobbyBackend) option" where
  "on_sethost e new_host b =
     (case (new_host, client b) of
        (Some h, Some c) \<Rightarrow>
          if id' h = clientid c
          then
            (if length (players c) = 1
             then Some (Return (),
                        destroy (client_disconnect e
                          (log' Info [Str ''Everyone left, disconnecting to remove the game.''] b)))
             else
               (case doJoin e 5 0
                       (disconnect e
                          (log' Info [Str ''I became host, disconnecting and re-joining..''] b)) of
                  None \<Rightarrow> None
                | Some (Return joined, b1) \<Rightarrow>
                    Some (Return (), if \<not> joined then destroy b1 else b1)
                | Some (Throw m, b1) \<Rightarrow> Some (Throw m, b1)
                | Some (Pending, b1) \<Rightarrow> Some (Pending, b1)))
          else
            (case data h of
               Some d \<Rightarrow>
                 Some (Return (),
                       emitHostChange (name d) (log' Info [Name (Some h), Str '' is now the host.''] b))
             | None \<Rightarrow> Some (Return (), log' Warn [Str ''Host changed, but there was no data.''] b))
      | _ \<Rightarrow> Some (Return (), b))"

section \<open>What the client calls leave alone\<close>

fun is_InitialSpawn :: "call \<Rightarrow> bool" where
  "is_InitialSpawn (InitialSpawn _) = True"
| "is_InitialSpawn _ = False"

text \<open>
  The part of the state that the calls on the client and on the helper leave alone:
  everything but the client object, the token, the log and those calls themselves.
\<close>

definition config ::
  "PublicLobbyBackend \<Rightarrow>
     (endpoint list \<times> nat \<times> bool) \<times>
     ((int \<times> PlayerData) list option \<times> (int \<times> Networkable) list option
        \<times> Networkable option list option) \<times>
     (GameSettings \<times> code_arg) \<times> event list \<times> call list" where
  "config b =
     ((master b, server b, destroyed b),
      (players_cache b, components_cache b, global_cache b),
      (settings b, gameCode b), emitted b, filter is_InitialSpawn (calls b))"

section \<open>Observations on a run of \<open>doJoin\<close>\<close>

fun is_Connect :: "call \<Rightarrow> bool" where
  "is_Connect (Connect _ _ _ _) = True"
| "is_Connect _ = False"

text \<open>The call that \<open>connect(ip, undefined, undefined, port)\<close> leaves in the trace.\<close>

definition connect_to :: "endpoint \<Rightarrow> call" where
  "connect_to ep = Connect (Some (fst ep)) None None (Some (snd ep))"

text \<open>The endpoints tried by \<open>k\<close> rounds that start at index \<open>s\<close> and move on by one each.\<close>

definition rotation :: "endpoint list \<Rightarrow> nat \<Rightarrow> nat \<Rightarrow> call list" where
  "rotation servers s k = map (\<lambda>i. connect_to (servers ! ((s + i) mod length servers))) [0 ..< k]"

fun is_retry_error :: "event \<Rightarrow> bool" where
  "is_retry_error (Error _ fatal) = (\<not> fatal)"
| "is_retry_error _ = False"

fun is_Error :: "event \<Rightarrow> bool" where
  "is_Error (Error _ _) = True"
| "is_Error _ = False"

fun is_HostChange :: "event \<Rightarrow> bool" where
  "is_HostChange (HostChange _) = True"
| "is_HostChange _ = False"

text \<open>The fatal errors that \<open>initialSpawn\<close> emits only under \<open>isFinal\<close>.\<close>

definition final_only :: "event \<Rightarrow> bool" where
  "final_only ev \<longleftrightarrow>
     ev = Error join_timeout_msg True \<or> ev = Error no_spawns_msg True
     \<or> ev = Error no_settings_msg True"


definition always_refuses :: "'x Env_scheme \<Rightarrow> bool" where
  "always_refuses e \<longleftrightarrow> (\<forall>h c. \<exists>m. on_connect e h c = Inl m)"



definition first_join :: "PublicLobbyBackend \<Rightarrow> bool" where
  "first_join b \<longleftrightarrow> players_cache b = None \<or> components_cache b = None \<or> global_cache b = None"

fun is_fatal :: "event \<Rightarrow> bool" where
  "is_fatal (Error _ fatal) = fatal"
| "is_fatal _ = False"

text \<open>
  From \<open>b\<close> to \<open>b'\<close>, every entry into \<open>initialSpawn\<close> was made with
  \<open>isFinal = false\<close>, and none of the fatal errors that \<open>initialSpawn\<close> emits only
  under \<open>isFinal\<close> was emitted.
\<close>

definition never_final :: "PublicLobbyBackend \<Rightarrow> PublicLobbyBackend \<Rightarrow> bool" where
  "never_final b b' \<longleftrightarrow>
     (\<exists>k evs. filter is_InitialSpawn (calls b')
                 = filter is_InitialSpawn (calls b) @ replicate k (InitialSpawn False)
        \<and> emitted b' = emitted b @ evs \<and> \<not> list_ex final_only evs)"

section \<open>Concrete inputs\<close>

text \<open>A lobby seen by the backend: the backend's own client (id 7) and two players.\<close>

definition alice :: PlayerData where
  "alice = \<lparr> room = 1, id' = 11, data = Some \<lparr> name = ''Alice'', color = 3 \<rparr> \<rparr>"

definition bob :: PlayerData where
  "bob = \<lparr> room = 1, id' = 12, data = None \<rparr>"

definition myself :: PlayerData where
  "myself = \<lparr> room = 1, id' = 7, data = Some \<lparr> name = ''Roundcar'', color = 1 \<rparr> \<rparr>"

definition gamedata :: Networkable where
  "gamedata = \<lparr> room = 1, ownerid = -2, classname = ''GameData'' \<rparr>"

definition control11 :: Networkable where
  "control11 = \<lparr> room = 1, ownerid = 11, classname = ''PlayerControl'' \<rparr>"

definition client0 :: SkeldjsClient where
  "client0 =
     \<lparr> cref = 1, socket = True, identified = True, me = Some myself, code = Some 4242,
       username = Some ''Roundcar'', ip = Some ''10.0.0.1'', port = Some 22023, clientid = 7,
       host = Some alice,
       players = [(7, myself), (11, alice), (12, bob)],
       objects = [(7, myself), (11, alice), (12, bob)],
       netobjects = [(20, control11)],
       components = [Some gamedata, None],
       csettings = Some \<lparr> map' = 0, crewmateVision = 1 \<rparr> \<rparr>"

text \<open>A backend after \<open>initialize\<close> found two servers, before any cache was filled.\<close>

definition backend0 :: PublicLobbyBackend where
  "backend0 = (new_backend (IntCode 4242))
     \<lparr> master := [(''10.0.0.1'', 22023), (''10.0.0.2'', 22023)], client := Some client0 \<rparr>"

text \<open>A token helper that never answers.\<close>

definition silent_env :: Env where
  "silent_env =
     \<lparr> Code2Int = (\<lambda>s. 4242), DisconnectMessages = (\<lambda>r. ''Could not find the game you're looking for.''),
       helper = (\<lambda>h. Silent), new_client = (\<lambda>h. client0),
       on_connect = (\<lambda>h c. Inr c), on_identify = (\<lambda>h c. Inr c),
       on_disconnect = (\<lambda>h c. c), on_waitPayload = (\<lambda>h c. None),
       on_spawnSelf = (\<lambda>h c. c),
       on_await = (\<lambda>h c. \<lparr> announced = [], spawned = False, synced = None, after = c \<rparr>),
       on_announce = (\<lambda>h c. None) \<rparr>"


text \<open>A freshly joined client object (number 2) with empty registries.\<close>

definition client1 :: SkeldjsClient where
  "client1 = client0 \<lparr> cref := 2, objects := [], netobjects := [], components := [],
                        players := [], host := None, me := None \<rparr>"


text \<open>Servers that refuse every connection.\<close>

definition refusing_env :: Env where
  "refusing_env = silent_env \<lparr> on_connect := (\<lambda>h c. Inl ''connect ECONNREFUSED'') \<rparr>"

text \<open>Servers that accept the connection and never answer the identification.\<close>

definition mute_env :: Env where
  "mute_env = silent_env \<lparr> on_identify := (\<lambda>h c. Inr (c\<lparr>identified := False\<rparr>)) \<rparr>"


text \<open>A server that lets the backend back in; the client then knows Alice as the host.\<close>

definition welcoming_env :: Env where
  "welcoming_env = silent_env \<lparr> on_identify := (\<lambda>h c. Inr (c\<lparr>identified := True, me := None\<rparr>)),
                               on_waitPayload := (\<lambda>h c. Some (JoinedGame, c)) \<rparr>"

section \<open>Basic facts about the traces\<close>

lemma log'_fields [simp]:
  "emitted (log' m ps b) = emitted b" "calls (log' m ps b) = calls b"
  "logged (log' m ps b) = logged b @ [(m, ps)]" "client (log' m ps b) = client b"
  "master (log' m ps b) = master b" "server (log' m ps b) = server b"
  "destroyed (log' m ps b) = destroyed b" "settings (log' m ps b) = settings b"
  "players_cache (log' m ps b) = players_cache b"
  "components_cache (log' m ps b) = components_cache b"
  "global_cache (log' m ps b) = global_cache b" "authToken (log' m ps b) = authToken b"
  "gameCode (log' m ps b) = gameCode b"
  by (simp_all add: log'_def)

lemma call'_fields [simp]:
  "emitted (call' c b) = emitted b" "calls (call' c b) = calls b @ [c]"
  "logged (call' c b) = logged b" "client (call' c b) = client b"
  "master (call' c b) = master b" "server (call' c b) = server b"
  "destroyed (call' c b) = destroyed b" "settings (call' c b) = settings b"
  "players_cache (call' c b) = players_cache b"
  "components_cache (call' c b) = components_cache b"
  "global_cache (call' c b) = global_cache b" "authToken (call' c b) = authToken b"
  "gameCode (call' c b) = gameCode b"
  by (simp_all add: call'_def)

lemma emit_fields [simp]:
  "emitted (emit ev b) = emitted b @ [ev]" "calls (emit ev b) = calls b"
  "logged (emit ev b) = logged b" "client (emit ev b) = client b"
  "master (emit ev b) = master b" "server (emit ev b) = server b"
  "destroyed (emit ev b) = destroyed b" "settings (emit ev b) = settings b"
  "players_cache (emit ev b) = players_cache b"
  "components_cache (emit ev b) = components_cache b"
  "global_cache (emit ev b) = global_cache b" "authToken (emit ev b) = authToken b"
  "gameCode (emit ev b) = gameCode b"
  by (simp_all add: emit_def)

lemmas emit_defs =
  emitError_def emitHostChange_def emitPlayerColor_def emitPlayerFlags_def emitSettingsUpdate_def

section \<open>Settings synchronisation\<close>

text \<open>
  C1, as the code has it: every \<open>player.syncsettings\<close> notification leaves the mirror
  holding the notification's map and crewmate vision, and emits exactly one
  \<open>SettingsUpdate\<close> carrying these two values, whether or not a value changed.
\<close>

theorem syncsettings_emits_once:
  "settings (on_syncsettings st b) = \<lparr> map' = map' st, crewmateVision = crewmateVision st \<rparr>
   \<and> emitted (on_syncsettings st b)
       = emitted b @ [SettingsUpdate \<lparr> map' = map' st, crewmateVision = crewmateVision st \<rparr>]
   \<and> count_SettingsUpdate (emitted (on_syncsettings st b))
       = count_SettingsUpdate (emitted b) + 1"
  by (simp add: on_syncsettings_def Let_def emit_defs count_SettingsUpdate_def)

text \<open>
  C1, as it is written, asks for no event when nothing changed. A notification that
  repeats the mirror of a fresh backend (map 0, vision 1) is answered with one event.
\<close>

theorem syncsettings_unchanged_counterexample:
  "map' (settings (new_backend NoCode)) = 0
   \<and> crewmateVision (settings (new_backend NoCode)) = 1
   \<and> count_SettingsUpdate
        (emitted (on_syncsettings \<lparr> map' = 0, crewmateVision = 1 \<rparr> (new_backend NoCode))) = 1"
  by (simp add: on_syncsettings_def Let_def emit_defs new_backend_def TheSkeld_def
      count_SettingsUpdate_def)

section \<open>Murder notifications\<close>

text \<open>
  C8: a murder whose victim has data emits exactly the event
  \<open>PlayerFlags victim IsDead True\<close> and logs no warning; a murder whose victim is
  missing or has no data emits nothing and logs exactly one line, a warning. The
  handler has no failing branch.
\<close>

theorem murder_event_or_warning:
  "emitted (on_murder killer victim b)
     = emitted b @ (case Option.bind victim data of
                      Some d \<Rightarrow> [PlayerFlags (name d) IsDead True]
                    | None \<Rightarrow> [])
   \<and> logged (on_murder killer victim b)
     = logged b @ (case Option.bind victim data of
                     Some d \<Rightarrow> [(Info, [Name killer, Str ''murdered'', Name victim, Str ''.''])]
                   | None \<Rightarrow> [(Warn, [Str ''Someone got murdered, but there was no data.''])])
   \<and> count_mode Warn (logged (on_murder killer victim b))
     = count_mode Warn (logged b) + (case Option.bind victim data of Some d \<Rightarrow> 0 | None \<Rightarrow> 1)"
  by (cases victim; cases "Option.bind victim data")
     (auto simp: on_murder_def emit_defs count_mode_def split: option.splits)

section \<open>Destroying the backend\<close>

text \<open>
  C9: \<open>destroy\<close> is idempotent. The first call sets the flag; when the client has a
  socket it removes the listener, disconnects, and drops the client. A call on a
  destroyed backend changes nothing.
\<close>

theorem destroy_idempotent:
  "destroy (destroy b) = destroy b
   \<and> destroyed (destroy b)
   \<and> (destroyed b \<longrightarrow> destroy b = b)
   \<and> (\<not> destroyed b \<longrightarrow>
        (case client b of
           Some c \<Rightarrow>
             if socket c
             then client (destroy b) = None
                  \<and> calls (destroy b) = calls b @ [RemoveListeners ''client.disconnect'', Disconnect]
             else client (destroy b) = client b \<and> calls (destroy b) = calls b
         | None \<Rightarrow> client (destroy b) = None \<and> calls (destroy b) = calls b))"
  by (auto simp: destroy_def Let_def split: option.splits)

theorem destroy_idempotent_witness:
  "\<not> destroyed backend0
   \<and> destroy (destroy backend0) = destroy backend0
   \<and> destroyed (destroy backend0)
   \<and> client (destroy backend0) = None
   \<and> calls (destroy backend0) = [RemoveListeners ''client.disconnect'', Disconnect]"
  using destroy_idempotent [of backend0]
  by (simp add: backend0_def new_backend_def client0_def)

section \<open>Token acquisition\<close>

lemma getAuthToken_cases:
  obtains (ok) tok where "getAuthToken e srv b = (Inr tok, call' (GetAuthToken srv) b)"
      "srv \<noteq> None" "helper e (calls b @ [GetAuthToken srv]) = Answered tok"
  | (fail) msg where "getAuthToken e srv b = (Inl msg, call' (GetAuthToken srv) b)"
  by (cases srv; cases "helper e (calls b @ [GetAuthToken srv])")
     (auto simp: getAuthToken_def Let_def)

lemma tryGetAuthToken_from:
  "n \<le> 4 \<Longrightarrow>
   \<exists>tok b' k. tryGetAuthToken e srv (int n) b = Some (tok, b') \<and> token_run e srv (5 - n) b tok b' k"
proof (induction "4 - n" arbitrary: n b)
  case 0
  then have n: "n = 4" by simp
  show ?case
  proof (cases rule: getAuthToken_cases [of e srv b])
    case (ok tok)
    then show ?thesis using n
      by (subst tryGetAuthToken.simps) (auto simp: token_run_def intro!: exI [of _ 1])
  next
    case (fail msg)
    then show ?thesis using n
      by (subst tryGetAuthToken.simps) (auto simp: token_run_def Let_def intro!: exI [of _ 1])
  qed
next
  case (Suc m)
  then have n: "n < 4" and m: "m = 4 - Suc n" "Suc n \<le> 4" by simp_all
  show ?case
  proof (cases rule: getAuthToken_cases [of e srv b])
    case (ok tok)
    then show ?thesis using n
      by (subst tryGetAuthToken.simps) (auto simp: token_run_def intro!: exI [of _ 1])
  next
    case (fail msg)
    define b2 where "b2 = log' Error_mode
                      [Str ''Failed to get authorisation token, trying '', Intg (5 - (int n + 1)),
                       Str '' more times. '', Str msg] (call' (GetAuthToken srv) b)"
    from Suc.hyps(1) [OF m, of b2]
    obtain tok b' k where rec: "tryGetAuthToken e srv (int (Suc n)) b2 = Some (tok, b')"
      and run: "token_run e srv (5 - Suc n) b2 tok b' k" by blast
    have step: "tryGetAuthToken e srv (int n) b = tryGetAuthToken e srv (int (Suc n)) b2"
      using fail n by (subst tryGetAuthToken.simps) (simp add: Let_def b2_def add.commute)
    have "token_run e srv (5 - n) b tok b' (Suc k)"
      using run n unfolding token_run_def b2_def
      by (auto simp: replicate_append_same)
    with step rec show ?thesis by auto
  qed
qed

text \<open>
  C3: started as the backend starts it (attempt counter 0), token acquisition always
  returns a token; it never throws and never hangs. It runs \<open>getAuthToken\<close> \<open>k\<close> times
  with \<open>1 \<le> k \<le> 5\<close>, each run settled by the helper's answer, its error, or the
  rejection of the 2000 ms timer. Either the last run succeeded and its token is returned,
  after \<open>k - 1\<close> logged failures; or all five runs failed, five failures were logged,
  and the token is the sentinel 0, announced by a last log line. No event is emitted.
\<close>

theorem tryGetAuthToken_bounded:
  "\<exists>tok b' k. tryGetAuthToken e srv 0 b = Some (tok, b')
     \<and> 1 \<le> k \<and> k \<le> 5
     \<and> calls b' = calls b @ replicate k (GetAuthToken srv)
     \<and> emitted b' = emitted b
     \<and> ((helper e (calls b') = Answered tok \<and> srv \<noteq> None
          \<and> length (logged b') = length (logged b) + (k - 1)
          \<and> length (filter is_token_failure (logged b'))
              = length (filter is_token_failure (logged b)) + (k - 1))
         \<or> (k = 5 \<and> tok = 0
          \<and> length (filter is_token_failure (logged b'))
              = length (filter is_token_failure (logged b)) + k
          \<and> logged b' \<noteq> []
          \<and> last (logged b')
              = (Error_mode, [Str ''Failed to get authorisation token from the server, using 0.''])))"
  using tryGetAuthToken_from [of 0 e srv b] by (simp add: token_run_def)

theorem tryGetAuthToken_bounded_witness:
  "\<exists>b'. tryGetAuthToken silent_env (Some (''10.0.0.1'', 22023)) 0 backend0 = Some (0, b')
     \<and> calls b' = replicate 5 (GetAuthToken (Some (''10.0.0.1'', 22023)))
     \<and> length (filter is_token_failure (logged b')) = 5"
  using tryGetAuthToken_bounded [of silent_env "Some (''10.0.0.1'', 22023)" backend0]
  by (auto simp: silent_env_def backend0_def new_backend_def)

section \<open>Frame properties of the client calls\<close>

lemma config_log' [simp]: "config (log' m ps b) = config b"
  by (simp add: config_def)

lemma config_call' [simp]: "\<not> is_InitialSpawn c \<Longrightarrow> config (call' c b) = config b"
  by (simp add: config_def)

lemma config_client [simp]: "config (b\<lparr>client := x\<rparr>) = config b"
  by (simp add: config_def)

lemma config_authToken [simp]: "config (b\<lparr>authToken := x\<rparr>) = config b"
  by (simp add: config_def)

lemma config_client_disconnect [simp]: "config (client_disconnect e b) = config b"
  by (simp add: client_disconnect_def Let_def split: option.splits)

lemma config_spawnSelf [simp]: "config (spawnSelf e b) = config b"
  by (simp add: spawnSelf_def Let_def split: option.splits)

lemma config_fields:
  "config b' = config b \<Longrightarrow>
     master b' = master b \<and> server b' = server b \<and> destroyed b' = destroyed b
     \<and> players_cache b' = players_cache b \<and> components_cache b' = components_cache b
     \<and> global_cache b' = global_cache b \<and> settings b' = settings b
     \<and> gameCode b' = gameCode b \<and> emitted b' = emitted b
     \<and> filter is_InitialSpawn (calls b') = filter is_InitialSpawn (calls b)"
  by (simp add: config_def)

lemma tryGetAuthToken_frame':
  "tryGetAuthToken e srv n b = Some r \<Longrightarrow>
   config (snd r) = config b \<and> client (snd r) = client b \<and> authToken (snd r) = authToken b"
proof (induction e srv n b r rule: tryGetAuthToken.raw_induct [rotated 1, consumes 1])
  case (1 f e srv n b r)
  show ?case
  proof (cases rule: getAuthToken_cases [of e srv b])
    case (ok tok)
    with 1(2) show ?thesis by auto
  next
    case (fail msg)
    show ?thesis
    proof (cases "n = 4")
      case True
      with 1(2) fail show ?thesis by (auto simp: Let_def)
    next
      case False
      with 1(2) fail obtain b2 where
        b2: "f e srv (n + 1) b2 = Some r" "config b2 = config b" "client b2 = client b"
          "authToken b2 = authToken b"
        by (auto simp: Let_def)
      from 1(1) [OF b2(1)] b2(2-) show ?thesis by simp
    qed
  qed
qed

lemma tryGetAuthToken_frame:
  "tryGetAuthToken e srv n b = Some (tok, b') \<Longrightarrow>
   config b' = config b \<and> client b' = client b \<and> authToken b' = authToken b"
  using tryGetAuthToken_frame' [of e srv n b "(tok, b')"] by simp

lemma relocate_frame:
  "relocate e ts tg u b = Some (r, b') \<Longrightarrow> config b' = config b"
  by (auto simp: relocate_def Let_def split: option.splits sum.splits prod.splits
      dest!: tryGetAuthToken_frame)

lemma joinGame_frame':
  "joinGame e cd sp b = Some r \<Longrightarrow> config (snd r) = config b"
proof (induction e cd sp b r rule: joinGame.raw_induct [rotated 1, consumes 1])
  case (1 f e cd sp b r)
  have rec: "config (snd r) = config b" if "f e cd' sp b' = Some r" "config b' = config b" for cd' b'
    using 1(1) [OF that(1)] that(2) by simp
  from 1(2) show ?case
    by (auto simp: Let_def split: code_arg.splits option.splits if_splits
        prod.splits payload.splits dest!: relocate_frame intro: rec)
qed

lemma joinGame_frame: "joinGame e cd sp b = Some (r, b') \<Longrightarrow> config b' = config b"
  using joinGame_frame' [of e cd sp b "(r, b')"] by simp


section \<open>One handshake\<close>





section \<open>Putting the snapshot back\<close>

lemma map_of_reattach_map:
  "distinct (map fst cache) \<Longrightarrow>
   map_of (reattach_map r cache reg) k
     = (case map_of cache k of Some ob \<Rightarrow> Some (ob\<lparr>room := r\<rparr>) | None \<Rightarrow> map_of reg k)"
  unfolding reattach_map_def
proof (induction cache arbitrary: reg)
  case Nil
  then show ?case by simp
next
  case (Cons p cache)
  obtain k' ob where p: "p = (k', ob)" by (cases p)
  from Cons.prems p have d: "distinct (map fst cache)" and nk: "k' \<notin> fst ` set cache" by auto
  from nk have "map_of cache k' = None" by (simp add: map_of_eq_None_iff)
  then show ?case using Cons.IH [OF d, of "AList.update k' (ob\<lparr>room := r\<rparr>) reg"] p
    by (auto simp: update_conv' split: option.splits)
qed

lemma keys_reattach_map:
  "fst ` set (reattach_map r cache reg) = fst ` set reg \<union> fst ` set cache"
  unfolding reattach_map_def
  by (induction cache arbitrary: reg) (auto simp: dom_update split: prod.splits)

lemma array_get_array_set:
  "array_get (array_set xs i v) j = (if j = i then Some v else array_get xs j)"
  by (auto simp: array_get_def array_set_def nth_append nth_Cons')

lemma array_get_reattach_upto:
  "n \<le> length cache \<Longrightarrow>
   array_get (fold (\<lambda>i reg. case cache ! i of None \<Rightarrow> reg
                              | Some component \<Rightarrow> array_set reg i (component\<lparr>room := r\<rparr>))
                   [0 ..< n] reg) j
     = (if j < n then (case cache ! j of Some component \<Rightarrow> Some (component\<lparr>room := r\<rparr>)
                       | None \<Rightarrow> array_get reg j)
        else array_get reg j)"
proof (induction n)
  case 0
  then show ?case by simp
next
  case (Suc n)
  then show ?case
    by (auto simp: array_get_array_set less_Suc_eq split: option.splits)
qed

lemma array_get_reattach_array:
  "array_get (reattach_array r cache reg) j
     = (if j < length cache
        then (case cache ! j of Some component \<Rightarrow> Some (component\<lparr>room := r\<rparr>)
              | None \<Rightarrow> array_get reg j)
        else array_get reg j)"
  unfolding reattach_array_def by (rule array_get_reattach_upto) simp

lemma card_keys: "distinct (map fst xs) \<Longrightarrow> card (fst ` set xs) = length xs"
  using distinct_card [of "map fst xs"] by simp

lemma last_entry_snoc:
  "last_entry (xs @ [x]) = (if x = None then last_entry xs else Suc (length xs))"
  by (simp add: last_entry_def)

lemma last_entry_le: "last_entry gc \<le> length gc"
  unfolding last_entry_def using length_dropWhile_le [of _ "rev gc"] by simp

lemma length_array_set: "length (array_set xs i v) = max (length xs) (Suc i)"
  by (auto simp: array_set_def)

lemma length_reattach_upto:
  "n \<le> length cache \<Longrightarrow>
   length (fold (\<lambda>i reg. case cache ! i of None \<Rightarrow> reg
                              | Some component \<Rightarrow> array_set reg i (component\<lparr>room := r\<rparr>))
                   [0 ..< n] reg)
     = max (length reg) (last_entry (take n cache))"
proof (induction n)
  case 0
  then show ?case by (simp add: last_entry_def)
next
  case (Suc n)
  then have "take (Suc n) cache = take n cache @ [cache ! n]"
    by (simp add: take_Suc_conv_app_nth)
  with Suc last_entry_le [of "take n cache"] show ?case
    by (auto simp: last_entry_snoc length_array_set split: option.splits)
qed

lemma length_reattach_array:
  "length (reattach_array r cache reg) = max (length reg) (last_entry cache)"
  unfolding reattach_array_def using length_reattach_upto [of "length cache" cache r reg] by simp

lemma beyond_last_entry: "last_entry gc \<le> i \<Longrightarrow> array_get gc i = None"
proof (induction gc rule: rev_induct)
  case Nil
  then show ?case by (simp add: array_get_def)
next
  case (snoc x xs)
  then show ?case
    by (auto simp: last_entry_snoc array_get_def nth_append split: if_splits)
qed

lemma reattach_array_eq:
  "reattach_array r gc reg
     = map (\<lambda>i. case array_get gc i of Some x \<Rightarrow> Some (x\<lparr>room := r\<rparr>) | None \<Rightarrow> array_get reg i)
         [0 ..< max (length reg) (last_entry gc)]"
proof -
  define m where "m = max (length reg) (last_entry gc)"
  have len: "length (reattach_array r gc reg) = m" by (simp add: length_reattach_array m_def)
  have "reattach_array r gc reg
     = map (\<lambda>i. case array_get gc i of Some x \<Rightarrow> Some (x\<lparr>room := r\<rparr>) | None \<Rightarrow> array_get reg i)
         [0 ..< m]"
  proof (rule nth_equalityI)
    show "length (reattach_array r gc reg) = length (map (\<lambda>i. case array_get gc i of Some x \<Rightarrow> Some (x\<lparr>room := r\<rparr>) | None \<Rightarrow> array_get reg i)
         [0 ..< m])"
      by (simp add: len)
  next
    fix i assume "i < length (reattach_array r gc reg)"
    then have i: "i < m" by (simp add: len)
    then have "reattach_array r gc reg ! i = array_get (reattach_array r gc reg) i"
      by (simp add: array_get_def len)
    also have "\<dots> = (case array_get gc i of Some x \<Rightarrow> Some (x\<lparr>room := r\<rparr>) | None \<Rightarrow> array_get reg i)"
      by (simp add: array_get_reattach_array) (simp add: array_get_def)
    finally show "reattach_array r gc reg ! i = map (\<lambda>i. case array_get gc i of Some x \<Rightarrow> Some (x\<lparr>room := r\<rparr>) | None \<Rightarrow> array_get reg i)
         [0 ..< m] ! i"
      using i by (simp split: option.split)
  qed
  then show ?thesis by (simp only: m_def)
qed

lemma count_entries:
  "last_entry gc \<le> n \<Longrightarrow>
   length (filter (\<lambda>i. array_get gc i \<noteq> None) [0 ..< n]) = length (filter (\<lambda>x. x \<noteq> None) gc)"
proof (induction gc arbitrary: n rule: rev_induct)
  case Nil
  then show ?case by (simp add: array_get_def)
next
  case (snoc x xs)
  show ?case
  proof (cases x)
    case None
    have "array_get (xs @ [x]) i = array_get xs i" for i
      using None by (auto simp: array_get_def nth_append)
    with snoc.IH [of n] snoc.prems None show ?thesis by (simp add: last_entry_snoc)
  next
    case (Some v)
    with snoc.prems have n: "Suc (length xs) \<le> n" by (simp add: last_entry_snoc)
    then obtain d where d: "n = length xs + Suc d"
      using less_imp_Suc_add [of "length xs" n] by auto
    have "[0 ..< length xs + Suc d] = [0 ..< length xs] @ [length xs ..< length xs + Suc d]"
      by (rule upt_add_eq_append) simp
    then have split: "[0 ..< n] = [0 ..< length xs] @ length xs # [Suc (length xs) ..< n]"
      by (simp add: d upt_conv_Cons)
    have 1: "filter (\<lambda>i. array_get (xs @ [x]) i \<noteq> None) [0 ..< length xs]
               = filter (\<lambda>i. array_get xs i \<noteq> None) [0 ..< length xs]"
      by (rule filter_cong) (auto simp: array_get_def nth_append)
    have 2: "filter (\<lambda>i. array_get (xs @ [x]) i \<noteq> None) [Suc (length xs) ..< n] = []"
      by (auto simp: filter_empty_conv array_get_def)
    have 3: "array_get (xs @ [x]) (length xs) \<noteq> None" using Some by (simp add: array_get_def)
    have "length (filter (\<lambda>i. array_get (xs @ [x]) i \<noteq> None) [0 ..< n])
            = Suc (length (filter (\<lambda>i. array_get xs i \<noteq> None) [0 ..< length xs]))"
      unfolding split filter_append filter.simps 1 2 using 3 by (simp del: not_None_eq)
    also have "\<dots> = Suc (length (filter (\<lambda>x. x \<noteq> None) xs))"
      using snoc.IH [of "length xs"] last_entry_le [of xs] by (simp del: not_None_eq)
    also have "\<dots> = length (filter (\<lambda>x. x \<noteq> None) (xs @ [x]))"
      using Some by simp
    finally show ?thesis .
  qed
qed

lemma distinct_reattach_map:
  "distinct (map fst reg) \<Longrightarrow> distinct (map fst (reattach_map r cache reg))"
  unfolding reattach_map_def
  by (induction cache arbitrary: reg) (auto simp: distinct_update split: prod.splits)

lemma count_cached_keys:
  assumes "distinct (map fst cache)" "distinct (map fst reg)"
  shows "length (filter (\<lambda>p. fst p \<in> fst ` set cache) (reattach_map r cache reg)) = length cache"
proof -
  let ?reg' = "reattach_map r cache reg"
  let ?f = "filter (\<lambda>p. fst p \<in> fst ` set cache) ?reg'"
  have "distinct (map fst ?reg')" using assms(2) by (rule distinct_reattach_map)
  then have "distinct (map fst ?f)" by (simp add: distinct_map_filter)
  then have "length ?f = card (fst ` set ?f)" using distinct_card [of "map fst ?f"] by simp
  also have "fst ` set ?f = fst ` set cache"
  proof
    show "fst ` set ?f \<subseteq> fst ` set cache" by auto
    show "fst ` set cache \<subseteq> fst ` set ?f"
    proof
      fix k assume k: "k \<in> fst ` set cache"
      then have "k \<in> fst ` set ?reg'" by (simp add: keys_reattach_map)
      then obtain p where "p \<in> set ?reg'" "fst p = k" by auto
      with k have "p \<in> set ?f" by simp
      with \<open>fst p = k\<close> show "k \<in> fst ` set ?f" by force
    qed
  qed
  also have "card (fst ` set cache) = length cache" using assms(1) by (rule card_keys)
  finally show ?thesis .
qed


text \<open>
  C5: let the snapshot hold the players \<open>pc\<close> (\<open>N\<close> entries under distinct keys),
  the components \<open>cc\<close> (\<open>M\<close> entries) and the singleton list \<open>gc\<close> (length
  \<open>L\<close>), and let \<open>c\<close> be the client that has just joined. After the three loops
  each registry of the client holds exactly \<open>N\<close> (\<open>M\<close>) entries under the cached
  keys, each the cached entity with its \<open>room\<close> set to the new client, and every
  other key reads what it read before. The singleton list holds, at every index where
  the snapshot has an entry, that entry with its \<open>room\<close> set to the new client, and at
  every other index what the client had there: the holes of the snapshot are passed
  over, so only its entries that are not holes are written, and the list is as long as
  the client's list was, or reaches just past the last such entry if that is longer.
  The loops have no failing branch.
\<close>

theorem reattach_restores_entries:
  assumes "distinct (map fst pc)" and "distinct (map fst cc)"
    and "distinct (map fst (objects c))" and "distinct (map fst (netobjects c))"
  shows "map_of (objects (reattach pc cc gc c)) k
           = (case map_of pc k of Some ob \<Rightarrow> Some (ob\<lparr>room := cref c\<rparr>)
              | None \<Rightarrow> map_of (objects c) k)
     \<and> distinct (map fst (objects (reattach pc cc gc c)))
     \<and> fst ` set (objects (reattach pc cc gc c)) = fst ` set (objects c) \<union> fst ` set pc
     \<and> length (filter (\<lambda>p. fst p \<in> fst ` set pc) (objects (reattach pc cc gc c))) = length pc
     \<and> map_of (netobjects (reattach pc cc gc c)) k
           = (case map_of cc k of Some ob \<Rightarrow> Some (ob\<lparr>room := cref c\<rparr>)
              | None \<Rightarrow> map_of (netobjects c) k)
     \<and> distinct (map fst (netobjects (reattach pc cc gc c)))
     \<and> fst ` set (netobjects (reattach pc cc gc c)) = fst ` set (netobjects c) \<union> fst ` set cc
     \<and> length (filter (\<lambda>p. fst p \<in> fst ` set cc) (netobjects (reattach pc cc gc c))) = length cc
     \<and> components (reattach pc cc gc c)
           = map (\<lambda>i. case array_get gc i of
                         Some component \<Rightarrow> Some (component\<lparr>room := cref c\<rparr>)
                       | None \<Rightarrow> array_get (components c) i)
               [0 ..< max (length (components c)) (last_entry gc)]
     \<and> length (filter (\<lambda>i. array_get gc i \<noteq> None)
                  [0 ..< length (components (reattach pc cc gc c))])
           = length (filter (\<lambda>x. x \<noteq> None) gc)
     \<and> cref (reattach pc cc gc c) = cref c"
proof -
  have "length (filter (\<lambda>i. array_get gc i \<noteq> None)
                  [0 ..< length (components (reattach pc cc gc c))])
           = length (filter (\<lambda>x. x \<noteq> None) gc)"
    by (rule count_entries) (simp add: reattach_def length_reattach_array)
  moreover have "components (reattach pc cc gc c)
           = map (\<lambda>i. case array_get gc i of
                         Some component \<Rightarrow> Some (component\<lparr>room := cref c\<rparr>)
                       | None \<Rightarrow> array_get (components c) i)
               [0 ..< max (length (components c)) (last_entry gc)]"
    unfolding reattach_def using reattach_array_eq [of "cref c" gc "components c"] by simp
  moreover have "length (filter (\<lambda>p. fst p \<in> fst ` set pc) (objects (reattach pc cc gc c))) = length pc"
    unfolding reattach_def using count_cached_keys [OF assms(1,3), of "cref c"] by simp
  moreover have "length (filter (\<lambda>p. fst p \<in> fst ` set cc) (netobjects (reattach pc cc gc c))) = length cc"
    unfolding reattach_def using count_cached_keys [OF assms(2,4), of "cref c"] by simp
  moreover have "map_of (objects (reattach pc cc gc c)) k
           = (case map_of pc k of Some ob \<Rightarrow> Some (ob\<lparr>room := cref c\<rparr>)
              | None \<Rightarrow> map_of (objects c) k)"
    using assms(1) by (simp add: reattach_def map_of_reattach_map)
  moreover have "map_of (netobjects (reattach pc cc gc c)) k
           = (case map_of cc k of Some ob \<Rightarrow> Some (ob\<lparr>room := cref c\<rparr>)
              | None \<Rightarrow> map_of (netobjects c) k)"
    using assms(2) by (simp add: reattach_def map_of_reattach_map)
  moreover have "distinct (map fst (objects (reattach pc cc gc c)))"
    "distinct (map fst (netobjects (reattach pc cc gc c)))"
    using assms(3,4) by (simp_all add: reattach_def distinct_reattach_map)
  moreover have "fst ` set (objects (reattach pc cc gc c)) = fst ` set (objects c) \<union> fst ` set pc"
    "fst ` set (netobjects (reattach pc cc gc c)) = fst ` set (netobjects c) \<union> fst ` set cc"
    "cref (reattach pc cc gc c) = cref c"
    by (simp_all add: reattach_def keys_reattach_map)
  ultimately show ?thesis by blast
qed

theorem reattach_restores_entries_witness:
  "objects (reattach [(11, alice), (12, bob)] [(20, control11)] [Some gamedata, None] client1)
     = [(11, alice\<lparr>room := 2\<rparr>), (12, bob\<lparr>room := 2\<rparr>)]
   \<and> netobjects (reattach [(11, alice), (12, bob)] [(20, control11)] [Some gamedata, None] client1)
     = [(20, control11\<lparr>room := 2\<rparr>)]
   \<and> components (reattach [(11, alice), (12, bob)] [(20, control11)] [Some gamedata, None] client1)
     = [Some (gamedata\<lparr>room := 2\<rparr>)]
   \<and> map_of (objects (reattach [(11, alice), (12, bob)] [(20, control11)] [Some gamedata, None] client1)) 12
     = Some (bob\<lparr>room := 2\<rparr>)
   \<and> last_entry [Some gamedata, None] = 1"
  using reattach_restores_entries [of "[(11, alice), (12, bob)]" "[(20, control11)]" client1
      "[Some gamedata, None]" 12]
  by (simp add: reattach_def reattach_map_def reattach_array_def client1_def client0_def
      array_set_def array_get_def upt_rec last_entry_def)

text \<open>
  C5, as it is written, has the \<open>L\<close> places of the singleton list inserted, holes
  included. A snapshot of length 2 that ends in a hole leaves a fresh client with a list
  of length 1, and a snapshot that is one hole leaves the component the client had at
  index 0 where it was.
\<close>

theorem reattach_trailing_hole_counterexample:
  "length [Some gamedata, None] = 2
   \<and> length (components (reattach [] [] [Some gamedata, None] client1)) = 1
   \<and> components (reattach [] [] [None] (client1\<lparr>components := [Some control11]\<rparr>))
       = [Some control11]"
  by (simp add: reattach_def reattach_map_def reattach_array_def client1_def client0_def
      array_set_def upt_rec)


section \<open>Rounds of the supervisor loop\<close>

lemma next_server_fields [simp]:
  "emitted (next_server b) = emitted b" "calls (next_server b) = calls b"
  "logged (next_server b) = logged b" "client (next_server b) = client b"
  "master (next_server b) = master b" "server (next_server b) = (server b + 1) mod length (master b)"
  "destroyed (next_server b) = destroyed b" "settings (next_server b) = settings b"
  "players_cache (next_server b) = players_cache b"
  "components_cache (next_server b) = components_cache b"
  "global_cache (next_server b) = global_cache b" "authToken (next_server b) = authToken b"
  "gameCode (next_server b) = gameCode b"
  by (simp_all add: next_server_def)

lemma rotation_0 [simp]: "rotation servers s 0 = []"
  by (simp add: rotation_def)

lemma rotation_Suc_front:
  assumes "s < length servers"
  shows "rotation servers s (Suc k)
           = connect_to (servers ! s) # rotation servers ((s + 1) mod length servers) k"
proof -
  have upt: "[0 ..< Suc k] = 0 # map Suc [0 ..< k]"
    by (simp add: upt_conv_Cons map_Suc_upt del: upt_Suc)
  have shift: "(Suc s mod length servers + i) mod length servers = Suc (s + i) mod length servers"
    for i using mod_add_left_eq [of "Suc s" "length servers" i] by simp
  show ?thesis using assms
    unfolding rotation_def upt by (simp add: comp_def shift del: upt_Suc)
qed



lemma doJoin_exhausted:
  "\<not> destroyed b \<Longrightarrow> max_attempts \<le> attempt \<Longrightarrow>
   doJoin e max_attempts attempt b
     = Some (Return False,
             emitError (exhausted_msg max_attempts) True (log' Fatal [Str ''Couldn't join game.''] b))"
  by (subst doJoin.simps) simp

lemma with_client_fields [simp]:
  "emitted (with_client e b) = emitted b" "logged (with_client e b) = logged b"
  "master (with_client e b) = master b" "server (with_client e b) = server b"
  "destroyed (with_client e b) = destroyed b" "settings (with_client e b) = settings b"
  "players_cache (with_client e b) = players_cache b"
  "components_cache (with_client e b) = components_cache b"
  "global_cache (with_client e b) = global_cache b" "authToken (with_client e b) = authToken b"
  "gameCode (with_client e b) = gameCode b"
  "filter is_Connect (calls (with_client e b)) = filter is_Connect (calls b)"
  "filter is_InitialSpawn (calls (with_client e b)) = filter is_InitialSpawn (calls b)"
  by (simp_all add: with_client_def Let_def)

lemma with_client_client: "\<exists>c. client (with_client e b) = Some c"
  by (cases "client b") (simp_all add: with_client_def Let_def)

lemma doJoin_round_cached:
  "\<not> destroyed b \<Longrightarrow> attempt < max_attempts \<Longrightarrow>
   players_cache b \<noteq> None \<Longrightarrow> components_cache b \<noteq> None \<Longrightarrow> global_cache b \<noteq> None \<Longrightarrow>
   doJoin e max_attempts attempt b =
     (case rejoin_phase e max_attempts attempt (with_client e b) of
        None \<Rightarrow> None
      | Some (Done r, b2) \<Rightarrow> Some (r, b2)
      | Some (Retry, b2) \<Rightarrow> doJoin e max_attempts (attempt + 1) b2
      | Some (Proceed, b2) \<Rightarrow> Some (Return True, b2))"
  by (subst doJoin.simps) (auto simp: Let_def)

lemma doJoin_round_warmup:
  "\<not> destroyed b \<Longrightarrow> attempt < max_attempts \<Longrightarrow>
   players_cache b = None \<or> components_cache b = None \<or> global_cache b = None \<Longrightarrow>
   doJoin e max_attempts attempt b =
     (case warmup_phase e max_attempts attempt (with_client e b) of
        None \<Rightarrow> None
      | Some (Done r, b1) \<Rightarrow> Some (r, b1)
      | Some (Retry, b1) \<Rightarrow> doJoin e max_attempts (attempt + 1) b1
      | Some (Proceed, b1) \<Rightarrow>
          (case rejoin_phase e max_attempts attempt b1 of
             None \<Rightarrow> None
           | Some (Done r, b2) \<Rightarrow> Some (r, b2)
           | Some (Retry, b2) \<Rightarrow> doJoin e max_attempts (attempt + 1) b2
           | Some (Proceed, b2) \<Rightarrow> Some (Return True, b2)))"
  by (subst doJoin.simps) (auto simp: Let_def)



text \<open>One round of the first-join block when the identification times out.\<close>

lemma warmup_phase_identify_timeout:
  assumes acc: "\<forall>h c. \<exists>c'. on_connect e h c = Inr c'"
    and mute: "\<forall>h c. \<exists>c'. on_identify e h c = Inr c' \<and> \<not> identified c'"
    and srv: "server b < length (master b)" and cl: "client b = Some c"
    and lt: "attempt < max_attempts"
  shows "\<exists>b' msg. warmup_phase e max_attempts attempt b = Some (Retry, b')
     \<and> filter is_Connect (calls b') = filter is_Connect (calls b) @ [connect_to (master b ! server b)]
     \<and> filter is_InitialSpawn (calls b') = filter is_InitialSpawn (calls b) @ [InitialSpawn False]
     \<and> emitted b' = emitted b @ [Error msg False]
     \<and> server b' = (server b + 1) mod length (master b)
     \<and> master b' = master b \<and> destroyed b' = destroyed b
     \<and> players_cache b' = players_cache b \<and> components_cache b' = components_cache b
     \<and> global_cache b' = global_cache b"
proof -
  obtain sip sport where ep: "master b ! server b = (sip, sport)" by (cases "master b ! server b")
  define h1 where "h1 = calls b @ [InitialSpawn False, Connect (Some sip) None None (Some sport)]"
  from acc obtain c1 where c1: "on_connect e h1 c = Inr c1" by blast
  define h2 where "h2 = h1 @ [Identify ''Roundcar'' (authToken b)]"
  from mute obtain c2 where c2: "on_identify e h2 c1 = Inr c2" "\<not> identified c2" by blast
  have ci: "connect_and_identify e sip sport
              (log' Info [Str ''Joining for the first time with server '', Str sip, Intg (int sport)]
                 (call' (InitialSpawn False) b))
            = Inr ((call' (Identify ''Roundcar'' (authToken b))
                     ((call' (Connect (Some sip) None None (Some sport))
                        (log' Info [Str ''Joining for the first time with server '', Str sip,
                                    Intg (int sport)]
                           (call' (InitialSpawn False) b)))\<lparr>client := Some c1\<rparr>))
                    \<lparr>client := Some c2\<rparr>)"
    using cl c1 c2 by (simp add: connect_and_identify_def Let_def h1_def h2_def)
  have is': "initialSpawn e False b
       = Some (Return TimedOut,
               (call' (Identify ''Roundcar'' (authToken b))
                     ((call' (Connect (Some sip) None None (Some sport))
                        (log' Info [Str ''Joining for the first time with server '', Str sip,
                                    Intg (int sport)]
                           (call' (InitialSpawn False) b)))\<lparr>client := Some c1\<rparr>))
                    \<lparr>client := Some c2\<rparr>)"
    using srv cl ep c2(2)
    by (simp add: initialSpawn_def Let_def lookup_index_def ci emit_if_final_def
        client_identified_def)
  show ?thesis
    using lt ep unfolding warmup_phase_def
    by (simp add: is' Let_def client_disconnect_def emitError_def connect_to_def)
qed

lemma doJoin_all_mute:
  assumes acc: "\<forall>h c. \<exists>c'. on_connect e h c = Inr c'"
    and mute: "\<forall>h c. \<exists>c'. on_identify e h c = Inr c' \<and> \<not> identified c'"
  shows "k = nat (max_attempts - attempt) \<Longrightarrow> attempt \<le> max_attempts \<Longrightarrow> \<not> destroyed b \<Longrightarrow>
     server b < length (master b) \<Longrightarrow>
     players_cache b = None \<or> components_cache b = None \<or> global_cache b = None \<Longrightarrow>
     \<exists>b' errs. doJoin e max_attempts attempt b = Some (Return False, b')
       \<and> filter is_Connect (calls b') = filter is_Connect (calls b) @ rotation (master b) (server b) k
       \<and> server b' = (server b + k) mod length (master b)
       \<and> emitted b' = emitted b @ errs @ [Error (exhausted_msg max_attempts) True]
       \<and> length errs = k \<and> list_all is_retry_error errs
       \<and> filter is_InitialSpawn (calls b')
           = filter is_InitialSpawn (calls b) @ replicate k (InitialSpawn False)"
proof (induction k arbitrary: attempt b)
  case 0
  then have "max_attempts \<le> attempt" by simp
  from doJoin_exhausted [OF 0(3) this, of e] 0(4) show ?case
    by (auto simp: emitError_def intro!: exI [of _ "[]"])
next
  case (Suc k)
  then have lt: "attempt < max_attempts" and k: "k = nat (max_attempts - (attempt + 1))"
    and le: "attempt + 1 \<le> max_attempts" by simp_all
  define b0 where "b0 = with_client e b"
  obtain c where c: "client b0 = Some c" using with_client_client [of e b] by (auto simp: b0_def)
  have pre: "server b0 < length (master b0)"
    using Suc.prems by (simp_all add: b0_def)
  from warmup_phase_identify_timeout [OF acc mute pre c lt]
  obtain b1 msg where b1: "warmup_phase e max_attempts attempt b0 = Some (Retry, b1)"
    "filter is_Connect (calls b1) = filter is_Connect (calls b0) @ [connect_to (master b0 ! server b0)]"
    "filter is_InitialSpawn (calls b1) = filter is_InitialSpawn (calls b0) @ [InitialSpawn False]"
    "emitted b1 = emitted b0 @ [Error msg False]"
    "server b1 = (server b0 + 1) mod length (master b0)"
    "master b1 = master b0" "destroyed b1 = destroyed b0"
    "players_cache b1 = players_cache b0" "components_cache b1 = components_cache b0"
    "global_cache b1 = global_cache b0"
    by blast
  have step: "doJoin e max_attempts attempt b = doJoin e max_attempts (attempt + 1) b1"
    using b1(1) unfolding doJoin_round_warmup [OF Suc.prems(3) lt Suc.prems(5)] b0_def [symmetric]
    by simp
  have n: "0 < length (master b)" using Suc.prems(4) by (cases "master b") simp_all
  have pre1: "\<not> destroyed b1" "server b1 < length (master b1)"
    "players_cache b1 = None \<or> components_cache b1 = None \<or> global_cache b1 = None"
    using Suc.prems b1 n by (simp_all add: b0_def)
  from Suc.IH [OF k le pre1]
  obtain b' errs where r: "doJoin e max_attempts (attempt + 1) b1 = Some (Return False, b')"
    "filter is_Connect (calls b') = filter is_Connect (calls b1) @ rotation (master b1) (server b1) k"
    "server b' = (server b1 + k) mod length (master b1)"
    "emitted b' = emitted b1 @ errs @ [Error (exhausted_msg max_attempts) True]"
    "length errs = k" "list_all is_retry_error errs"
    "filter is_InitialSpawn (calls b')
       = filter is_InitialSpawn (calls b1) @ replicate k (InitialSpawn False)"
    by blast
  have srv: "server b' = (server b + Suc k) mod length (master b)"
    using r(3) b1(5,6) mod_add_left_eq [of "Suc (server b)" "length (master b)" k]
    by (simp add: b0_def)
  have cs: "filter is_Connect (calls b')
      = filter is_Connect (calls b) @ rotation (master b) (server b) (Suc k)"
    using r(2) b1(2,5,6) Suc.prems(4)
    by (simp add: b0_def rotation_Suc_front)
  have ev: "emitted b' = emitted b @ (Error msg False # errs) @ [Error (exhausted_msg max_attempts) True]"
    using r(4) b1(4) by (simp add: b0_def)
  have mk: "filter is_InitialSpawn (calls b')
       = filter is_InitialSpawn (calls b) @ replicate (Suc k) (InitialSpawn False)"
    using r(7) b1(3) by (simp add: b0_def replicate_append_same)
  show ?case
    using step r(1) srv cs ev r(5,6) mk
    by (intro exI [of _ b'] exI [of _ "Error msg False # errs"]) simp
qed







section \<open>Concrete runs\<close>



lemma backend0_fields:
  "\<not> destroyed backend0" "server backend0 = 0"
  "master backend0 = [(''10.0.0.1'', 22023), (''10.0.0.2'', 22023)]"
  "gameCode backend0 = IntCode 4242" "first_join backend0"
  "emitted backend0 = []" "calls backend0 = []" "client backend0 = Some client0"
  "authToken backend0 = 0" "logged backend0 = []"
  by (simp_all add: backend0_def new_backend_def first_join_def)

lemma refusing_env_refuses: "always_refuses refusing_env"
  by (simp add: always_refuses_def refusing_env_def silent_env_def)








section \<open>A refused connection during the first join\<close>

text \<open>One round of the first-join block when the connection is refused.\<close>

lemma warmup_phase_connect_refused:
  assumes ref: "always_refuses e"
    and srv: "server b < length (master b)" and cl: "client b = Some c"
    and lt: "attempt < max_attempts"
  shows "\<exists>b' msg. warmup_phase e max_attempts attempt b = Some (Retry, b')
     \<and> filter is_Connect (calls b') = filter is_Connect (calls b) @ [connect_to (master b ! server b)]
     \<and> emitted b' = emitted b @ [Error servers_full_msg True, Error msg False]
     \<and> server b' = (server b + 1) mod length (master b)
     \<and> master b' = master b \<and> destroyed b' = destroyed b
     \<and> players_cache b' = players_cache b \<and> components_cache b' = components_cache b
     \<and> global_cache b' = global_cache b"
proof -
  obtain sip sport where ep: "master b ! server b = (sip, sport)" by (cases "master b ! server b")
  define bl where "bl = log' Info [Str ''Joining for the first time with server '', Str sip,
                                   Intg (int sport)] (call' (InitialSpawn False) b)"
  define h1 where "h1 = calls b @ [InitialSpawn False, Connect (Some sip) None None (Some sport)]"
  from ref obtain m where m: "on_connect e h1 c = Inl m" unfolding always_refuses_def by blast
  have ci: "connect_and_identify e sip sport bl
            = Inl (m, call' (Connect (Some sip) None None (Some sport)) bl)"
    using cl m by (simp add: connect_and_identify_def Let_def h1_def bl_def)
  have is': "initialSpawn e False b
       = Some (Return FailedToConnect,
               emitError servers_full_msg True
                 (log' Fatal [Str (''Error: '' @ m)]
                    (call' (Connect (Some sip) None None (Some sport)) bl)))"
    using srv cl ep
    by (simp add: initialSpawn_def Let_def lookup_index_def bl_def [symmetric] ci)
  show ?thesis
    using lt ep cl unfolding warmup_phase_def
    by (simp add: is' Let_def client_disconnect_def emitError_def connect_to_def bl_def)
qed

lemma doJoin_first_join_refused:
  assumes ref: "always_refuses e"
  shows "k = nat (max_attempts - attempt) \<Longrightarrow> attempt \<le> max_attempts \<Longrightarrow> \<not> destroyed b \<Longrightarrow>
     server b < length (master b) \<Longrightarrow> first_join b \<Longrightarrow>
     \<exists>b'. doJoin e max_attempts attempt b = Some (Return False, b')
       \<and> length (emitted b') = length (emitted b) + 2 * k + 1
       \<and> filter is_fatal (emitted b')
           = filter is_fatal (emitted b) @ replicate k (Error servers_full_msg True)
             @ [Error (exhausted_msg max_attempts) True]"
proof (induction k arbitrary: attempt b)
  case 0
  then have "max_attempts \<le> attempt" by simp
  from doJoin_exhausted [OF 0(3) this, of e] show ?case
    by (simp add: emitError_def)
next
  case (Suc k)
  then have lt: "attempt < max_attempts" and k: "k = nat (max_attempts - (attempt + 1))"
    and le: "attempt + 1 \<le> max_attempts" by simp_all
  define b0 where "b0 = with_client e b"
  obtain c where c: "client b0 = Some c" using with_client_client [of e b] by (auto simp: b0_def)
  have pre: "server b0 < length (master b0)"
    using Suc.prems by (simp_all add: b0_def)
  from warmup_phase_connect_refused [OF ref pre c lt]
  obtain b1 msg where b1: "warmup_phase e max_attempts attempt b0 = Some (Retry, b1)"
    "emitted b1 = emitted b0 @ [Error servers_full_msg True, Error msg False]"
    "server b1 = (server b0 + 1) mod length (master b0)"
    "master b1 = master b0" "destroyed b1 = destroyed b0"
    "players_cache b1 = players_cache b0" "components_cache b1 = components_cache b0"
    "global_cache b1 = global_cache b0"
    by blast
  have fj: "players_cache b = None \<or> components_cache b = None \<or> global_cache b = None"
    using Suc.prems(5) by (simp add: first_join_def)
  have step: "doJoin e max_attempts attempt b = doJoin e max_attempts (attempt + 1) b1"
    using b1(1) unfolding doJoin_round_warmup [OF Suc.prems(3) lt fj] b0_def [symmetric]
    by simp
  have n: "0 < length (master b)" using Suc.prems(4) by (cases "master b") simp_all
  have pre1: "\<not> destroyed b1" "server b1 < length (master b1)" "first_join b1"
    using Suc.prems b1 n by (simp_all add: b0_def first_join_def)
  from Suc.IH [OF k le pre1]
  obtain b' where r: "doJoin e max_attempts (attempt + 1) b1 = Some (Return False, b')"
    "length (emitted b') = length (emitted b1) + 2 * k + 1"
    "filter is_fatal (emitted b')
           = filter is_fatal (emitted b1) @ replicate k (Error servers_full_msg True)
             @ [Error (exhausted_msg max_attempts) True]"
    by blast
  show ?case
    using step r b1(2) by (simp add: b0_def replicate_append_same)
qed

text \<open>
  C4 asks that a connect failure of the first join be reported with \<open>fatal = false\<close>.
  With servers that refuse the connection, the first round of \<open>doJoin\<close> on a backend
  without caches does treat the failure as retryable (it moves on to the next endpoint
  and asks for another round), but the consumer is first sent an error with
  \<open>fatal = true\<close>, by the \<open>catch\<close> block of \<open>initialSpawn\<close>, and only then the error with
  \<open>fatal = false\<close>.
\<close>

theorem warmup_connect_failure_is_reported_fatal:
  "map_option fst (warmup_phase refusing_env 5 0 backend0) = Some Retry
   \<and> map_option (server \<circ> snd) (warmup_phase refusing_env 5 0 backend0) = Some 1
   \<and> map_option (map is_fatal \<circ> emitted \<circ> snd) (warmup_phase refusing_env 5 0 backend0)
       = Some [True, False]
   \<and> map_option (hd \<circ> emitted \<circ> snd) (warmup_phase refusing_env 5 0 backend0)
       = Some (Error servers_full_msg True)"
  using warmup_phase_connect_refused [OF refusing_env_refuses, of backend0 client0 0 5]
  by (auto simp: backend0_fields)

text \<open>
  The whole run against such servers: five rounds, each with its fatal error, and the
  fatal error of the exhausted budget; six fatal errors among eleven events.
\<close>

lemma doJoin_refused_first_join_run:
  "map_option fst (doJoin refusing_env 5 0 backend0) = Some (Return False)
   \<and> map_option (length \<circ> emitted \<circ> snd) (doJoin refusing_env 5 0 backend0) = Some 11
   \<and> map_option (filter is_fatal \<circ> emitted \<circ> snd) (doJoin refusing_env 5 0 backend0)
       = Some (replicate 5 (Error servers_full_msg True) @ [Error (exhausted_msg 5) True])"
  using doJoin_first_join_refused [OF refusing_env_refuses refl, of 0 5 backend0]
  by (auto simp: backend0_fields)

section \<open>The supervisor loop never passes \<open>isFinal\<close>\<close>

lemma never_final_refl [simp]: "never_final b b"
  unfolding never_final_def by (intro exI [of _ 0] exI [of _ "[]"]) simp

lemma never_final_trans: "never_final a b \<Longrightarrow> never_final b c \<Longrightarrow> never_final a c"
proof -
  assume "never_final a b" "never_final b c"
  then obtain k1 e1 k2 e2 where
    1: "filter is_InitialSpawn (calls b) = filter is_InitialSpawn (calls a) @ replicate k1 (InitialSpawn False)"
       "emitted b = emitted a @ e1" "\<not> list_ex final_only e1"
    and 2: "filter is_InitialSpawn (calls c) = filter is_InitialSpawn (calls b) @ replicate k2 (InitialSpawn False)"
       "emitted c = emitted b @ e2" "\<not> list_ex final_only e2"
    unfolding never_final_def by blast
  show ?thesis unfolding never_final_def
    using 1 2 by (intro exI [of _ "k1 + k2"] exI [of _ "e1 @ e2"]) (simp add: replicate_add)
qed

lemma never_final_cong:
  "emitted b'' = emitted b' \<Longrightarrow>
   filter is_InitialSpawn (calls b'') = filter is_InitialSpawn (calls b') \<Longrightarrow>
   never_final b b'' = never_final b b'"
  by (simp add: never_final_def)

lemma never_final_config: "config b'' = config b' \<Longrightarrow> never_final b b'' = never_final b b'"
  by (rule never_final_cong) (simp_all add: config_def)

lemma never_final_log' [simp]: "never_final b (log' m ps b') = never_final b b'"
  by (rule never_final_cong) simp_all

lemma never_final_call' [simp]:
  "\<not> is_InitialSpawn c \<Longrightarrow> never_final b (call' c b') = never_final b b'"
  by (rule never_final_cong) simp_all

lemma never_final_client [simp]: "never_final b (b'\<lparr>client := x\<rparr>) = never_final b b'"
  by (rule never_final_cong) simp_all

lemma never_final_settings [simp]: "never_final b (b'\<lparr>settings := x\<rparr>) = never_final b b'"
  by (rule never_final_cong) simp_all

lemma never_final_next_server [simp]: "never_final b (next_server b') = never_final b b'"
  by (rule never_final_cong) simp_all

lemma never_final_with_client [simp]: "never_final b (with_client e b') = never_final b b'"
  by (rule never_final_cong) simp_all

lemma never_final_client_disconnect [simp]:
  "never_final b (client_disconnect e b') = never_final b b'"
  by (rule never_final_config) simp

lemma never_final_spawnSelf [simp]: "never_final b (spawnSelf e b') = never_final b b'"
  by (rule never_final_config) simp

lemma resetObjectCaches_fields [simp]:
  "emitted (resetObjectCaches b) = emitted b" "calls (resetObjectCaches b) = calls b"
  "logged (resetObjectCaches b) = logged b" "client (resetObjectCaches b) = client b"
  "master (resetObjectCaches b) = master b" "server (resetObjectCaches b) = server b"
  "destroyed (resetObjectCaches b) = destroyed b" "settings (resetObjectCaches b) = settings b"
  "authToken (resetObjectCaches b) = authToken b" "gameCode (resetObjectCaches b) = gameCode b"
  by (simp_all add: resetObjectCaches_def split: option.splits)

lemma never_final_disconnect [simp]: "never_final b (disconnect e b') = never_final b b'"
  unfolding disconnect_def by (simp add: never_final_cong [of "resetObjectCaches b'" b'])

lemma destroy_trace [simp]:
  "emitted (destroy b) = emitted b"
  "filter is_InitialSpawn (calls (destroy b)) = filter is_InitialSpawn (calls b)"
  by (simp_all add: destroy_def Let_def split: option.splits)

lemma never_final_destroy [simp]: "never_final b (destroy b') = never_final b b'"
  by (rule never_final_cong) simp_all

lemma never_final_emit:
  "\<not> final_only ev \<Longrightarrow> never_final b b' \<Longrightarrow> never_final b (emit ev b')"
proof -
  assume ev: "\<not> final_only ev" and "never_final b b'"
  then obtain k evs where
    "filter is_InitialSpawn (calls b') = filter is_InitialSpawn (calls b) @ replicate k (InitialSpawn False)"
    "emitted b' = emitted b @ evs" "\<not> list_ex final_only evs"
    unfolding never_final_def by blast
  then show ?thesis unfolding never_final_def using ev
    by (intro exI [of _ k] exI [of _ "evs @ [ev]"]) simp
qed

lemma never_final_marker:
  "never_final b b' \<Longrightarrow> never_final b (call' (InitialSpawn False) b')"
proof -
  assume "never_final b b'"
  then obtain k evs where
    "filter is_InitialSpawn (calls b') = filter is_InitialSpawn (calls b) @ replicate k (InitialSpawn False)"
    "emitted b' = emitted b @ evs" "\<not> list_ex final_only evs"
    unfolding never_final_def by blast
  then show ?thesis unfolding never_final_def
    by (intro exI [of _ "Suc k"] exI [of _ evs]) (simp add: replicate_append_same)
qed

lemma not_final_only [simp]:
  "\<not> final_only (Error servers_full_msg f)" "\<not> final_only (Error m False)"
  "\<not> final_only (HostChange n)" "\<not> final_only (PlayerColor n c)"
  "\<not> final_only (SettingsUpdate st)"
  "\<not> final_only (Error game_not_found_msg f)" "\<not> final_only (Error failed_to_join_msg f)"
  "\<not> final_only (Error (exhausted_msg mx) f)"
  by (simp_all add: final_only_def servers_full_msg_def join_timeout_msg_def no_spawns_msg_def
      no_settings_msg_def game_not_found_msg_def failed_to_join_msg_def exhausted_msg_def)

lemma never_final_emits [simp]:
  "never_final b b' \<Longrightarrow> never_final b (emitError servers_full_msg f b')"
  "never_final b b' \<Longrightarrow> never_final b (emitError m False b')"
  "never_final b b' \<Longrightarrow> never_final b (emitError game_not_found_msg f b')"
  "never_final b b' \<Longrightarrow> never_final b (emitError failed_to_join_msg f b')"
  "never_final b b' \<Longrightarrow> never_final b (emitError (exhausted_msg mx) f b')"
  "never_final b b' \<Longrightarrow> never_final b (emitHostChange n b')"
  "never_final b b' \<Longrightarrow> never_final b (emitPlayerColor n c b')"
  "never_final b b' \<Longrightarrow> never_final b (emitSettingsUpdate st b')"
  "never_final b b' \<Longrightarrow> never_final b (emit_if_final False m b')"
  by (simp_all add: emit_defs emit_if_final_def never_final_emit)

lemma never_final_fold_announced:
  "never_final b b' \<Longrightarrow> never_final b (fold (\<lambda>(n, col). emitPlayerColor n col) xs b')"
  by (induction xs arbitrary: b') (auto split: prod.splits)

lemma never_final_fold_players:
  "never_final b b' \<Longrightarrow>
   never_final b (fold (\<lambda>(k, p) s. case data p of None \<Rightarrow> s
                                     | Some d \<Rightarrow> emitPlayerColor (name d) (color d) s) xs b')"
  by (induction xs arbitrary: b') (auto split: prod.splits option.splits)


lemma report_lobby_never_final:
  "never_final b0 b \<Longrightarrow> never_final b0 (report_lobby st c b)"
  unfolding report_lobby_def Let_def
  by (rule never_final_fold_players) (simp split: option.split)

lemma announce_and_leave_never_final:
  "announce_and_leave e c b = Some (r, b') \<Longrightarrow> never_final b0 b \<Longrightarrow> never_final b0 b'"
  unfolding announce_and_leave_def
  by (auto simp: Let_def split: option.splits)

lemma initialSpawn_joined_never_final:
  assumes "initialSpawn_joined e False b = Some (r, b')" and "never_final b0 b"
  shows "never_final b0 b'"
proof -
  define b1 where "b1 = log' Info [Str ''Waiting for spawns and settings..'']
                 (log' Success [Str ''Successfully joined room.''] b)"
  have 1: "never_final b0 b1" using assms(2) by (simp add: b1_def)
  show ?thesis
  proof (cases "client b1")
    case None
    with assms(1) 1 show ?thesis
      unfolding initialSpawn_joined_def Let_def b1_def by auto
  next
    case (Some c)
    show ?thesis
    proof (cases "falsy_code (code c)")
      case True
      with assms(1) 1 Some show ?thesis
        unfolding initialSpawn_joined_def Let_def b1_def by auto
    next
      case False
      define b3 where "b3 = call' AwaitSpawnsAndSettings (spawnSelf e b1)"
      define c3 where "c3 = (case client b3 of Some c' \<Rightarrow> c' | None \<Rightarrow> c)"
      define r' where "r' = on_await e (calls b3) c3"
      define b4 where "b4 = fold (\<lambda>(n, col). emitPlayerColor n col) (announced r')
                           (b3\<lparr>client := Some (after r')\<rparr>)"
      have 4: "never_final b0 b4"
        unfolding b4_def by (rule never_final_fold_announced) (simp add: b3_def 1)
      have eq: "initialSpawn_joined e False b =
        (case await_both c3 r' of
           None \<Rightarrow> Some (Return TimedOut,
                         emit_if_final False no_spawns_msg
                           (log' Fatal [Str ''I didn't receive either spawns or settings from the host.''] b4))
         | Some None \<Rightarrow> Some (Return TimedOut,
                         emit_if_final False no_settings_msg
                           (log' Fatal [Str ''I didn't receive settings from the host.''] b4))
         | Some (Some st) \<Rightarrow> announce_and_leave e (after r') (report_lobby st (after r') b4))"
        using Some False
        unfolding initialSpawn_joined_def Let_def b4_def r'_def c3_def b3_def b1_def
        by simp
      show ?thesis
      proof (cases "await_both c3 r'")
        case None
        with assms(1) eq 4 show ?thesis by auto
      next
        case outer: (Some so)
        show ?thesis
        proof (cases so)
          case None
          with assms(1) eq 4 outer show ?thesis by auto
        next
          case (Some st)
          with assms(1) eq outer
          have "announce_and_leave e (after r') (report_lobby st (after r') b4) = Some (r, b')"
            by simp
          from announce_and_leave_never_final [OF this report_lobby_never_final [OF 4]]
          show ?thesis .
        qed
      qed
    qed
  qed
qed


lemma connect_and_identify_config:
  "connect_and_identify e sip sport b = Inl (m, b1) \<Longrightarrow> config b1 = config b"
  "connect_and_identify e sip sport b = Inr b2 \<Longrightarrow> config b2 = config b"
  by (auto simp: connect_and_identify_def Let_def split: option.splits sum.splits)

lemma joinGame_never_final:
  "joinGame e cd sp b = Some (r, b') \<Longrightarrow> never_final b0 b' = never_final b0 b"
  by (rule never_final_config) (rule joinGame_frame)

lemma initialSpawn_join_never_final:
  assumes run: "initialSpawn_join e False b = Some (r, b')" and pre: "never_final b0 b"
  shows "never_final b0 b'"
proof -
  define b2 where "b2 = log' Info [Str ''Joining room..'']
                          (log' Success [Str ''Successfully connected.''] b)"
  have 2: "never_final b0 b2" using pre by (simp add: b2_def)
  show ?thesis
  proof (cases "joinGame e (gameCode b) False b2")
    case None
    with run show ?thesis by (simp add: initialSpawn_join_def b2_def)
  next
    case jg: (Some q)
    obtain oc b3 where q: "q = (oc, b3)" by (cases q)
    from joinGame_never_final [OF jg [unfolded q], of b0] 2
    have 3: "never_final b0 b3" by simp
    from run jg q have eq:
      "(case oc of
          Throw msg \<Rightarrow>
            Some (Return (if includes_str (''Error: '' @ msg) ''Could not find the game''
                          then GameNotFound else FailedToJoin),
                  log' Fatal [Str (''Error: '' @ msg)] b3)
        | Pending \<Rightarrow> Some (Return TimedOut, emit_if_final False join_timeout_msg b3)
        | Return cd \<Rightarrow>
            if falsy_code cd
            then Some (Return TimedOut, emit_if_final False join_timeout_msg b3)
            else initialSpawn_joined e False b3) = Some (r, b')"
      by (simp add: initialSpawn_join_def b2_def)
    show ?thesis
    proof (cases oc)
      case (Return cd)
      with eq 3 show ?thesis
        by (cases "falsy_code cd") (auto dest: initialSpawn_joined_never_final)
    next
      case (Throw msg)
      with eq 3 show ?thesis by auto
    next
      case Pending
      with eq 3 show ?thesis by auto
    qed
  qed
qed

lemma initialSpawn_never_final:
  assumes run: "initialSpawn e False b = Some (r, b')" and pre: "never_final b0 b"
  shows "never_final b0 b'"
proof -
  define bm where "bm = call' (InitialSpawn False) b"
  have m: "never_final b0 bm" unfolding bm_def by (rule never_final_marker) (rule pre)
  have run': "(case lookup_index (master bm) (server bm) of
           None \<Rightarrow> Some (Throw TypeError, bm)
         | Some (sip, sport) \<Rightarrow>
             (case client bm of
                None \<Rightarrow> Some (Return NoClient, bm)
              | Some c \<Rightarrow>
                  (case connect_and_identify e sip sport
                          (log' Info [Str ''Joining for the first time with server '', Str sip,
                                      Intg (int sport)] bm) of
                     Inl (msg, b1) \<Rightarrow>
                       Some (Return FailedToConnect,
                             emitError servers_full_msg True (log' Fatal [Str (''Error: '' @ msg)] b1))
                   | Inr b1 \<Rightarrow>
                       if \<not> client_identified b1
                       then Some (Return TimedOut, emit_if_final False servers_full_msg b1)
                       else initialSpawn_join e False b1))) = Some (r, b')"
    using run unfolding initialSpawn_def Let_def bm_def .
  show ?thesis
  proof (cases "lookup_index (master bm) (server bm)")
    case None
    from run' [unfolded None option.case] have "b' = bm" by simp
    with m show ?thesis by simp
  next
    case (Some ep)
    obtain sip sport where ep: "ep = (sip, sport)" by (cases ep)
    note run2 = run' [unfolded Some ep option.case prod.case]
    show ?thesis
    proof (cases "client bm")
      case None
      from run2 [unfolded None option.case] have "b' = bm" by simp
      with m show ?thesis by simp
    next
      case cl: (Some c)
      define bl where "bl = log' Info [Str ''Joining for the first time with server '', Str sip,
                                       Intg (int sport)] bm"
      have l: "never_final b0 bl" using m by (simp add: bl_def)
      note run3 = run2 [unfolded cl option.case, folded bl_def]
      show ?thesis
      proof (cases "connect_and_identify e sip sport bl")
        case (Inl p)
        obtain msg b1 where p: "p = (msg, b1)" by (cases p)
        from never_final_config [OF connect_and_identify_config(1) [OF Inl [unfolded p]], of b0] l
        have 1: "never_final b0 b1" by simp
        from run3 [unfolded Inl p sum.case prod.case]
        have "b' = emitError servers_full_msg True (log' Fatal [Str (''Error: '' @ msg)] b1)"
          by simp
        with 1 show ?thesis by simp
      next
        case (Inr b1)
        from never_final_config [OF connect_and_identify_config(2) [OF Inr], of b0] l
        have 1: "never_final b0 b1" by simp
        note eq = run3 [unfolded Inr sum.case]
        show ?thesis
        proof (cases "client_identified b1")
          case False
          with eq have "b' = emit_if_final False servers_full_msg b1" by simp
          with 1 show ?thesis by simp
        next
          case True
          with eq have "initialSpawn_join e False b1 = Some (r, b')" by simp
          from initialSpawn_join_never_final [OF this 1] show ?thesis .
        qed
      qed
    qed
  qed
qed

lemma warmup_phase_never_final:
  assumes run: "warmup_phase e max_attempts attempt b = Some (ph, b')"
    and lt: "attempt < max_attempts" and pre: "never_final b0 b"
  shows "never_final b0 b'"
proof (cases "initialSpawn e False b")
  case None
  with run lt show ?thesis by (simp add: warmup_phase_def)
next
  case (Some q)
  obtain oc b1 where q: "q = (oc, b1)" by (cases q)
  from initialSpawn_never_final [OF Some [unfolded q] pre] have 1: "never_final b0 b1" .
  from lt have nf: "(max_attempts \<le> attempt) = False" by simp
  note run1 = run [unfolded warmup_phase_def nf Some q option.case prod.case]
  show ?thesis
  proof (cases oc)
    case Pending
    with run1 1 show ?thesis by simp
  next
    case (Throw m)
    with run1 1 show ?thesis by simp
  next
    case (Return err)
    with run1 1 show ?thesis
      by (auto simp: Let_def split: if_splits)
  qed
qed

lemma reattach_host_never_final:
  "never_final b0 b5 \<Longrightarrow>
   never_final b0 (case host c' of
                     None \<Rightarrow> b5
                   | Some h \<Rightarrow>
                       (case data h of
                          None \<Rightarrow> b5
                        | Some d \<Rightarrow>
                            emitHostChange (name d)
                              (log' Success [Str ''Found host: '', Name (Some h)] b5)))"
  by (simp split: option.split)

lemma rejoin_phase_never_final:
  assumes run: "rejoin_phase e max_attempts attempt b = Some (ph, b')" and pre: "never_final b0 b"
  shows "never_final b0 b'"
proof (cases "destroyed b")
  case True
  with run pre show ?thesis by (simp add: rejoin_phase_def)
next
  case False
  then have nd: "destroyed b = False" by simp
  note run0 = run [unfolded rejoin_phase_def nd if_False]
  show ?thesis
  proof (cases "lookup_index (master b) (server b)")
    case None
    from run0 [unfolded None option.case] pre show ?thesis by simp
  next
    case (Some ep)
    obtain sip sport where ep: "ep = (sip, sport)" by (cases ep)
    define bl where "bl = log' Info [Str ''Joining game with server '', Str sip, Intg (int sport),
                                Str '', not spawning, attempt #'', Intg (attempt + 1)] b"
    have l: "never_final b0 bl" using pre by (simp add: bl_def)
    note run1 = run0 [unfolded Some ep option.case prod.case, folded bl_def]
    show ?thesis
    proof (cases "connect_and_identify e sip sport bl")
      case (Inl p)
      obtain msg b1 where p: "p = (msg, b1)" by (cases p)
      from never_final_config [OF connect_and_identify_config(1) [OF Inl [unfolded p]], of b0] l
      have 1: "never_final b0 b1" by simp
      from run1 [unfolded Inl p sum.case prod.case] 1 show ?thesis
        by (auto simp: Let_def)
    next
      case (Inr b1)
      from never_final_config [OF connect_and_identify_config(2) [OF Inr], of b0] l
      have 1: "never_final b0 b1" by simp
      define b2 where "b2 = log' Info [Str ''Successfully connected to server.''] b1"
      have 2: "never_final b0 b2" using 1 by (simp add: b2_def)
      note run2 = run1 [unfolded Inr sum.case Let_def, folded b2_def]
      show ?thesis
      proof (cases "joinGame e (gameCode b2) False b2")
        case None
        from run2 [unfolded None option.case] show ?thesis by simp
      next
        case jg: (Some q)
        obtain oc b3 where q: "q = (oc, b3)" by (cases q)
        from joinGame_never_final [OF jg [unfolded q], of b0] 2
        have 3: "never_final b0 b3" by simp
        note run3 = run2 [unfolded jg q option.case prod.case]
        show ?thesis
        proof (cases oc)
          case Pending
          from run3 [unfolded Pending outcome.case] 3 show ?thesis by simp
        next
          case (Throw msg)
          from run3 [unfolded Throw outcome.case] 3 show ?thesis
            by (auto split: if_splits)
        next
          case (Return cd)
          note run4 = run3 [unfolded Return outcome.case]
          show ?thesis
          proof (cases "\<exists>pc cc gc. players_cache b3 = Some pc \<and> components_cache b3 = Some cc
                          \<and> global_cache b3 = Some gc")
            case False
            with run4 3 show ?thesis by (auto split: option.splits)
          next
            case True
            then obtain pc cc gc where c: "players_cache b3 = Some pc" "components_cache b3 = Some cc"
              "global_cache b3 = Some gc" by blast
            define b4 where "b4 = log' Info [Str ''Replacing state with cached state.. '',
                                                   Intg (int (length pc)), Intg (int (length cc)),
                                                   Intg (int (length gc))]
                                          (log' Success [Str ''Successfully joined!''] b3)"
            have 4: "never_final b0 b4" using 3 by (simp add: b4_def)
            note run5 = run4 [unfolded c prod.case option.case, folded b4_def]
            show ?thesis
            proof (cases "client b4")
              case None
              from run5 [unfolded None option.case] 4 show ?thesis by auto
            next
              case (Some cl)
              define b5 where "b5 = log' Success [Str ''Joined & successfully replaced state!'']
                                      (b4\<lparr>client := Some (reattach pc cc gc cl)\<rparr>)"
              have 5: "never_final b0 b5" using 4 by (simp add: b5_def)
              from run5 [unfolded Some option.case, folded b5_def]
              have "b' = (case host (reattach pc cc gc cl) of
                     None \<Rightarrow> b5
                   | Some h \<Rightarrow>
                       (case data h of
                          None \<Rightarrow> b5
                        | Some d \<Rightarrow>
                            emitHostChange (name d)
                              (log' Success [Str ''Found host: '', Name (Some h)] b5)))"
                by simp
              with reattach_host_never_final [OF 5] show ?thesis by simp
            qed
          qed
        qed
      qed
    qed
  qed
qed


lemma doJoin_never_final_aux:
  "k = nat (max_attempts - attempt) \<Longrightarrow> doJoin e max_attempts attempt b = Some (r, b') \<Longrightarrow>
   never_final b0 b \<Longrightarrow> never_final b0 b'"
proof (induction k arbitrary: attempt b)
  case 0
  then have ge: "max_attempts \<le> attempt" by simp
  show ?case
  proof (cases "destroyed b")
    case True
    with 0(2,3) show ?thesis by (subst (asm) doJoin.simps) auto
  next
    case False
    from 0(2) [unfolded doJoin_exhausted [OF False ge]] 0(3) show ?thesis by auto
  qed
next
  case (Suc k)
  then have lt: "attempt < max_attempts" and k: "k = nat (max_attempts - (attempt + 1))"
    by simp_all
  note IH = Suc.IH [OF k]
  show ?case
  proof (cases "destroyed b")
    case True
    with Suc.prems(2,3) show ?thesis by (subst (asm) doJoin.simps) auto
  next
    case nd: False
    have rejoin: "never_final b0 b'"
      if "never_final b0 b1"
        and "(case rejoin_phase e max_attempts attempt b1 of
               None \<Rightarrow> None
             | Some (Done r, b2) \<Rightarrow> Some (r, b2)
             | Some (Retry, b2) \<Rightarrow> doJoin e max_attempts (attempt + 1) b2
             | Some (Proceed, b2) \<Rightarrow> Some (Return True, b2)) = Some (r, b')" for b1
    proof (cases "rejoin_phase e max_attempts attempt b1")
      case None
      with that(2) show ?thesis by simp
    next
      case (Some q)
      obtain ph b2 where q: "q = (ph, b2)" by (cases q)
      from rejoin_phase_never_final [OF Some [unfolded q] that(1)] have 2: "never_final b0 b2" .
      note run = that(2) [unfolded Some q option.case prod.case]
      show ?thesis
      proof (cases ph)
        case (Done x)
        with run 2 show ?thesis by auto
      next
        case Retry
        with run have "doJoin e max_attempts (attempt + 1) b2 = Some (r, b')" by simp
        from IH [OF this 2] show ?thesis .
      next
        case Proceed
        with run 2 show ?thesis by auto
      qed
    qed
    have wc: "never_final b0 (with_client e b)" using Suc.prems(3) by simp
    show ?thesis
    proof (cases "players_cache b = None \<or> components_cache b = None \<or> global_cache b = None")
      case False
      then have c: "players_cache b \<noteq> None" "components_cache b \<noteq> None" "global_cache b \<noteq> None"
        by simp_all
      from Suc.prems(2) [unfolded doJoin_round_cached [OF nd lt c]] rejoin [OF wc]
      show ?thesis by simp
    next
      case True
      note run = Suc.prems(2) [unfolded doJoin_round_warmup [OF nd lt True]]
      show ?thesis
      proof (cases "warmup_phase e max_attempts attempt (with_client e b)")
        case None
        with run show ?thesis by simp
      next
        case (Some q)
        obtain ph b1 where q: "q = (ph, b1)" by (cases q)
        from warmup_phase_never_final [OF Some [unfolded q] lt wc] have 1: "never_final b0 b1" .
        note run1 = run [unfolded Some q option.case prod.case]
        show ?thesis
        proof (cases ph)
          case (Done x)
          with run1 1 show ?thesis by auto
        next
          case Retry
          with run1 have "doJoin e max_attempts (attempt + 1) b1 = Some (r, b')" by simp
          from IH [OF this 1] show ?thesis .
        next
          case Proceed
          with run1 have "(case rejoin_phase e max_attempts attempt b1 of
               None \<Rightarrow> None
             | Some (Done r, b2) \<Rightarrow> Some (r, b2)
             | Some (Retry, b2) \<Rightarrow> doJoin e max_attempts (attempt + 1) b2
             | Some (Proceed, b2) \<Rightarrow> Some (Return True, b2)) = Some (r, b')" by simp
          from rejoin [OF 1 this] show ?thesis .
        qed
      qed
    qed
  qed
qed

text \<open>
  C10: in every run of \<open>doJoin\<close> that returns, each entry into \<open>initialSpawn\<close> is
  made with \<open>isFinal = false\<close>: the argument \<open>attempt >= max_attempts\<close> is evaluated only
  in a round that \<open>doJoin\<close> starts with \<open>attempt < max_attempts\<close>. Under that argument a
  guarded emission leaves the backend as it is, and none of the fatal errors that
  \<open>initialSpawn\<close> emits only under \<open>isFinal\<close> and nowhere else (join timeout, missing
  spawns, missing settings) is among the events of the run. The guarded emission after an
  identification timeout carries the message of the emission after a refused connection, so
  the events cannot tell the two apart; it is covered by the argument being false.
\<close>

theorem doJoin_never_passes_isFinal:
  assumes "doJoin e max_attempts attempt b = Some (r, b')"
  shows "\<exists>k evs. filter is_InitialSpawn (calls b')
                    = filter is_InitialSpawn (calls b) @ replicate k (InitialSpawn False)
           \<and> emitted b' = emitted b @ evs \<and> \<not> list_ex final_only evs
           \<and> emit_if_final False msg b' = b'"
  using doJoin_never_final_aux [OF refl assms never_final_refl]
  by (simp add: never_final_def emit_if_final_def)

theorem doJoin_never_passes_isFinal_witness:
  "\<exists>b' evs. doJoin mute_env 5 0 backend0 = Some (Return False, b')
     \<and> filter is_InitialSpawn (calls b') = replicate 5 (InitialSpawn False)
     \<and> emitted b' = evs \<and> \<not> list_ex final_only evs"
proof -
  have acc: "\<forall>h c. \<exists>c'. on_connect mute_env h c = Inr c'"
    and mute: "\<forall>h c. \<exists>c'. on_identify mute_env h c = Inr c' \<and> \<not> identified c'"
    by (simp_all add: mute_env_def silent_env_def)
  from doJoin_all_mute [OF acc mute refl _ _ _ backend0_fields(5) [unfolded first_join_def], of 0 5]
  obtain b' where run: "doJoin mute_env 5 0 backend0 = Some (Return False, b')"
    and mk: "filter is_InitialSpawn (calls b') = replicate 5 (InitialSpawn False)"
    by (auto simp: backend0_fields)
  from doJoin_never_passes_isFinal [OF run] mk
  have "\<not> list_ex final_only (emitted b')" by (auto simp: backend0_fields)
  with run mk show ?thesis by simp
qed

end
